theory Spec2Isabelle
  imports Main
begin

section \<open>Python values, strings and dictionaries\<close>

text \<open>
  The encoder of \<^verbatim>\<open>tulip/synth.py\<close> builds GR(1) formulas as text. Labels, state
  identifiers and action identifiers reach it as Python objects that are either \<^verbatim>\<open>str\<close>
  or \<^verbatim>\<open>int\<close> (\<^verbatim>\<open>actions2ints\<close> tests \<^verbatim>\<open>isinstance(action, int)\<close>), and every one of
  them is turned into text by the builtin \<^verbatim>\<open>str\<close>.
\<close>

datatype pyval = PInt int | PStr string

datatype error =
    KeyError
  | TypeError
  | AttributeError
  | Exception string
  | LTLException string
  | IndexError
  | AssertionError

function str_nat :: "nat \<Rightarrow> string" where
  "str_nat n =
     (if n < 10 then [char_of (48 + n)]
      else str_nat (n div 10) @ [char_of (48 + n mod 10)])"
  by pat_completeness auto
termination
  by (relation "measure id") auto

declare str_nat.simps [simp del]

definition str_int :: "int \<Rightarrow> string" where
  "str_int i = (if i < 0 then CHR ''-'' # str_nat (nat (- i)) else str_nat (nat i))"

fun str :: "pyval \<Rightarrow> string" where
  "str (PStr s) = s"
| "str (PInt i) = str_int i"

text \<open>\<^verbatim>\<open>sep.join(xs)\<close>\<close>

fun join :: "string \<Rightarrow> string list \<Rightarrow> string" where
  "join sep [] = []"
| "join sep [x] = x"
| "join sep (x # y # ys) = x @ sep @ join sep (y # ys)"

text \<open>
  A dictionary whose \<^verbatim>\<open>values()\<close> are enumerated is an association list with distinct
  keys; \<^verbatim>\<open>d[k]\<close> raises \<^verbatim>\<open>KeyError\<close> on a missing key.
\<close>

type_synonym ('k, 'v) dict = "('k \<times> 'v) list"

definition getitem :: "('k, 'v) dict \<Rightarrow> 'k \<Rightarrow> error + 'v" where
  "getitem d k = (case map_of d k of None \<Rightarrow> Inl KeyError | Some v \<Rightarrow> Inr v)"

definition dict_values :: "('k, 'v) dict \<Rightarrow> 'v list" where
  "dict_values d = map snd d"

section \<open>Formula helpers of synth.py\<close>

definition pstr :: "pyval \<Rightarrow> string" where
  "pstr s = ''('' @ str s @ '')''"

definition disj_str :: "pyval list \<Rightarrow> string" where
  "disj_str set0 = join '' || '' (map (\<lambda>x. ''('' @ str x @ '')'') set0)"

definition conj_str :: "pyval list \<Rightarrow> string" where
  "conj_str set0 = join '' && '' (map (\<lambda>x. ''('' @ str x @ '')'') set0)"

definition conj_intersection :: "pyval list \<Rightarrow> pyval list \<Rightarrow> bool \<Rightarrow> string" where
  "conj_intersection set0 set1 parenth =
     (if parenth
      then join '' && '' (map (\<lambda>x. ''('' @ str x @ '')'') (filter (\<lambda>x. x \<in> set set1) set0))
      else join '' && '' (map (\<lambda>x. str x) (filter (\<lambda>x. x \<in> set set1) set0)))"

definition conj_neg :: "pyval list \<Rightarrow> bool \<Rightarrow> string" where
  "conj_neg set0 parenth =
     (if parenth
      then join '' && '' (map (\<lambda>x. ''!('' @ str x @ '')'') set0)
      else join '' && '' (map (\<lambda>x. ''!'' @ str x) set0))"

definition conj_neg_diff :: "pyval list \<Rightarrow> pyval list \<Rightarrow> bool \<Rightarrow> string" where
  "conj_neg_diff set0 set1 parenth =
     (if parenth
      then join '' && '' (map (\<lambda>x. ''!('' @ str x @ '')'') (filter (\<lambda>x. x \<notin> set set1) set0))
      else join '' && '' (map (\<lambda>x. ''!'' @ str x) (filter (\<lambda>x. x \<notin> set set1) set0)))"

text \<open>
  \<^verbatim>\<open>mutex\<close> first drops every label equal to the empty string (Python 2 \<^verbatim>\<open>filter\<close>
  returns a list), then returns no formula for fewer than two labels.
\<close>

definition mutex :: "pyval list \<Rightarrow> string list" where
  "mutex iterable0 =
     (let iterable = filter (\<lambda>x. x \<noteq> PStr '''') iterable0 in
      if iterable = [] then []
      else if length iterable \<le> 1 then []
      else [conj_str (map (\<lambda>x. PStr (''!('' @ str x @ '') || ('' @
                                   conj_neg_diff iterable [x] True @ '')'')) iterable)])"

definition exactly_one :: "pyval list \<Rightarrow> string list" where
  "exactly_one iterable =
     (if length iterable \<le> 1 then map pstr iterable
      else [''('' @ disj_str (map (\<lambda>x. PStr (''('' @ str x @ '') && '' @
                                   conj_neg_diff iterable [x] True)) iterable) @ '')''])"

section \<open>Abstract syntax of the generated formulas\<close>

text \<open>
  The text built by \<^verbatim>\<open>mutex\<close> and \<^verbatim>\<open>exactly_one\<close> is read through the syntax tree it
  prints: \<open>render\<close> prints a tree with exactly the parentheses and operator tokens the
  Python code concatenates, and \<open>holds\<close> evaluates a tree under a Boolean valuation of
  the label texts. An empty \<^verbatim>\<open>join\<close> prints the empty string, as in Python.
\<close>

datatype form =
    Atom pyval
  | Paren form
  | Neg form
  | AndL "form list"
  | OrL "form list"

fun render :: "form \<Rightarrow> string" where
  "render (Atom x) = str x"
| "render (Paren f) = ''('' @ render f @ '')''"
| "render (Neg f) = ''!'' @ render f"
| "render (AndL fs) = join '' && '' (map render fs)"
| "render (OrL fs) = join '' || '' (map render fs)"

fun holds :: "(string \<Rightarrow> bool) \<Rightarrow> form \<Rightarrow> bool" where
  "holds v (Atom x) = v (str x)"
| "holds v (Paren f) = holds v f"
| "holds v (Neg f) = (\<not> holds v f)"
| "holds v (AndL fs) = list_all (holds v) fs"
| "holds v (OrL fs) = list_ex (holds v) fs"

definition conj_neg_diff_form :: "pyval list \<Rightarrow> pyval list \<Rightarrow> form" where
  "conj_neg_diff_form set0 set1 =
     AndL (map (\<lambda>x. Neg (Paren (Atom x))) (filter (\<lambda>x. x \<notin> set set1) set0))"

definition mutex_form :: "pyval list \<Rightarrow> form list" where
  "mutex_form iterable0 =
     (let iterable = filter (\<lambda>x. x \<noteq> PStr '''') iterable0 in
      if iterable = [] then []
      else if length iterable \<le> 1 then []
      else [AndL (map (\<lambda>x. Paren (OrL [Neg (Paren (Atom x)),
                                          Paren (conj_neg_diff_form iterable [x])])) iterable)])"

definition exactly_one_form :: "pyval list \<Rightarrow> form list" where
  "exactly_one_form iterable =
     (if length iterable \<le> 1 then map (\<lambda>x. Paren (Atom x)) iterable
      else [Paren (OrL (map (\<lambda>x. Paren (AndL [Paren (Atom x),
                                               conj_neg_diff_form iterable [x]])) iterable))])"

section \<open>Variable encodings of states and actions\<close>

text \<open>
  A list stands for a set-like container of the transition system in its iteration order;
  its elements are distinct, so \<^verbatim>\<open>len\<close> is \<open>length\<close>. A variable mapping is only
  written and looked up, so it is a map from names to domains: \<^verbatim>\<open>'boolean'\<close>, a pair
  \<^verbatim>\<open>(lo, hi)\<close>, or a list of values. The functions below update \<^verbatim>\<open>variables\<close>,
  \<^verbatim>\<open>trans\<close> and \<^verbatim>\<open>init\<close> in place; the model returns the updated values next to
  the function's own result.
\<close>

datatype domain = Boolean | IntRange int int | Enum "pyval list"

type_synonym variables = "pyval \<rightharpoonup> domain"

definition bindE :: "error + 'a \<Rightarrow> ('a \<Rightarrow> error + 'b) \<Rightarrow> error + 'b" where
  "bindE m f = (case m of Inl e \<Rightarrow> Inl e | Inr x \<Rightarrow> f x)"

fun mapE :: "('a \<Rightarrow> error + 'b) \<Rightarrow> 'a list \<Rightarrow> error + 'b list" where
  "mapE f [] = Inr []"
| "mapE f (x # xs) = bindE (f x) (\<lambda>y. bindE (mapE f xs) (\<lambda>ys. Inr (y # ys)))"

text \<open>\<^verbatim>\<open>{x: f(x) for x in xs}\<close>\<close>

definition dict_comp :: "('a \<Rightarrow> 'b) \<Rightarrow> 'a list \<Rightarrow> ('a, 'b) dict" where
  "dict_comp f xs = map (\<lambda>x. (x, f x)) xs"

text \<open>\<^verbatim>\<open>variables.update({x: 'boolean' for x in xs})\<close>\<close>

definition update_boolean :: "variables \<Rightarrow> pyval list \<Rightarrow> variables" where
  "update_boolean vars xs = vars ++ map_of (dict_comp (\<lambda>x. Boolean) xs)"

text \<open>
  \<^verbatim>\<open>int(s)\<close> succeeds on a string that, once surrounding white space is stripped, is
  an optional sign followed by one or more decimal digits.
\<close>

definition is_space :: "char \<Rightarrow> bool" where
  "is_space c = (of_char c \<in> {9, 10, 11, 12, 13, 32 :: nat})"

definition is_digit :: "char \<Rightarrow> bool" where
  "is_digit c = (48 \<le> (of_char c :: nat) \<and> (of_char c :: nat) \<le> 57)"

definition int_literal :: "string \<Rightarrow> bool" where
  "int_literal s =
     (case rev (dropWhile is_space (rev (dropWhile is_space s))) of
        [] \<Rightarrow> False
      | c # r \<Rightarrow>
          (let d = (if c = CHR ''+'' \<or> c = CHR ''-'' then r else c # r)
           in d \<noteq> [] \<and> list_all is_digit d))"

text \<open>
  \<^verbatim>\<open>statevar + ' = ' + s\<close> concatenates strings: an \<^verbatim>\<open>int\<close> operand raises
  \<^verbatim>\<open>TypeError\<close>. In \<^verbatim>\<open>states2ints\<close> the bare \<^verbatim>\<open>except\<close> around
  \<^verbatim>\<open>int(state[1:])\<close> also catches the \<^verbatim>\<open>TypeError\<close> of slicing an \<^verbatim>\<open>int\<close>.
\<close>

definition assign_text :: "string \<Rightarrow> pyval \<Rightarrow> error + pyval" where
  "assign_text var x =
     (case x of PStr s \<Rightarrow> Inr (PStr (var @ '' = '' @ s)) | PInt i \<Rightarrow> Inl TypeError)"

definition letter_number :: "pyval \<Rightarrow> bool" where
  "letter_number x = (case x of PStr s \<Rightarrow> int_literal (tl s) | PInt i \<Rightarrow> False)"

definition states2ints ::
  "pyval list \<Rightarrow> string \<Rightarrow> error + ((pyval, pyval) dict \<times> domain)" where
  "states2ints states statevar =
     (if list_all letter_number states
      then Inr (dict_comp (\<lambda>x. PStr (statevar @ '' = '' @ tl (str x))) states,
                IntRange 0 (int (length states) - 1))
      else bindE (mapE (assign_text statevar) states)
             (\<lambda>ids. Inr (zip states ids, Enum states)))"

definition create_states ::
  "pyval list \<Rightarrow> variables \<Rightarrow> string list \<Rightarrow> string \<Rightarrow> bool
     \<Rightarrow> error + ((pyval, pyval) dict \<times> variables \<times> string list)" where
  "create_states states vars trns statevar bool_states0 =
     (let bool_states = (if length states < 3 then True else bool_states0) in
      if bool_states
      then Inr (dict_comp (\<lambda>x. x) states, update_boolean vars states,
                trns @ exactly_one states)
      else bindE (states2ints states statevar)
             (\<lambda>(state_ids, dmn). Inr (state_ids, vars(PStr statevar \<mapsto> dmn), trns)))"

definition is_int :: "pyval \<Rightarrow> bool" where
  "is_int x = (case x of PInt i \<Rightarrow> True | PStr s \<Rightarrow> False)"

definition actions2ints ::
  "pyval list \<Rightarrow> string \<Rightarrow> bool \<Rightarrow> error + ((pyval, pyval) dict \<times> domain)" where
  "actions2ints actions actionvar min_one =
     (if list_all is_int actions
      then Inr (dict_comp (\<lambda>x. x) actions,
                IntRange 0 (if min_one then int (length actions) - 1
                            else int (length actions)))
      else bindE (mapE (assign_text actionvar) actions)
             (\<lambda>ids. Inr (zip actions ids,
                           Enum (if \<not> min_one then actions @ [PStr (actionvar @ ''none'')]
                                 else actions))))"

text \<open>\<^verbatim>\<open>xs[0]\<close>\<close>

definition first :: "'a list \<Rightarrow> error + 'a" where
  "first xs = (case xs of [] \<Rightarrow> Inl IndexError | x # r \<Rightarrow> Inr x)"

text \<open>
  \<^verbatim>\<open>actions_must\<close> is \<^verbatim>\<open>None\<close>, \<^verbatim>\<open>'mutex'\<close> or \<^verbatim>\<open>'xor'\<close>; any other value
  raises. The result of \<^verbatim>\<open>create_actions\<close> is \<^verbatim>\<open>None\<close> when there are no actions.
\<close>

definition must_options :: "string option \<Rightarrow> error + (bool \<times> bool)" where
  "must_options actions_must =
     (case actions_must of
        None \<Rightarrow> Inr (False, False)
      | Some m \<Rightarrow>
          if m = ''mutex'' then Inr (True, False)
          else if m = ''xor'' then Inr (True, True)
          else Inl (Exception (''Unknown value: actions_must = '' @ m)))"

definition create_actions ::
  "pyval list \<Rightarrow> variables \<Rightarrow> string list \<Rightarrow> string list \<Rightarrow> string \<Rightarrow> bool
     \<Rightarrow> string option
     \<Rightarrow> error + ((pyval, pyval) dict option \<times> variables \<times> string list \<times> string list)" where
  "create_actions actions vars trns init actionvar bool_actions0 actions_must =
     (if actions = [] then Inr (None, vars, trns, init)
      else bindE (must_options actions_must) (\<lambda>(use_mutex, min_one).
        let bool_actions = (if \<not> use_mutex then True else bool_actions0) in
        if bool_actions then
          (let action_ids = dict_comp (\<lambda>x. x) actions;
               vars1 = update_boolean vars actions in
           if mutex (dict_values action_ids) = [] then Inr (Some action_ids, vars1, trns, init)
           else if use_mutex \<and> \<not> min_one then
             bindE (first (mutex (dict_values action_ids))) (\<lambda>m.
               Inr (Some action_ids, vars1, trns @ [''X ('' @ m @ '')''],
                    init @ mutex (dict_values action_ids)))
           else if use_mutex \<and> min_one then
             bindE (first (exactly_one (dict_values action_ids))) (\<lambda>m.
               Inr (Some action_ids, vars1, trns @ [''X ('' @ m @ '')''],
                    init @ exactly_one (dict_values action_ids)))
           else if min_one then Inl (Exception ''min_one requires mutex'')
           else Inr (Some action_ids, vars1, trns, init))
        else if \<not> use_mutex then Inl AssertionError
        else bindE (actions2ints actions actionvar min_one) (\<lambda>(action_ids, dmn).
               Inr (Some action_ids, vars(PStr actionvar \<mapsto> dmn), trns, init))))"

section \<open>Transition systems\<close>

text \<open>
  The encoder reads a transition system through \<^verbatim>\<open>states\<close> (iterated, with the
  attribute \<^verbatim>\<open>initial\<close> and the method \<^verbatim>\<open>label_of\<close>) and through
  \<^verbatim>\<open>transitions.find\<close>. A label is a dictionary in which the encoder looks at four keys
  only: \<^verbatim>\<open>'ap'\<close> (a set of atomic propositions) and the action tags \<^verbatim>\<open>'env_actions'\<close>,
  \<^verbatim>\<open>'sys_actions'\<close> and \<^verbatim>\<open>'actions'\<close>; a key that is absent is \<open>None\<close>.
\<close>

record label =
  l_ap :: "pyval list option"
  l_env_actions :: "pyval option"
  l_sys_actions :: "pyval option"
  l_actions :: "pyval option"

datatype action_type = Env_actions | Sys_actions | Actions

fun label_get :: "label \<Rightarrow> action_type \<Rightarrow> pyval option" where
  "label_get l Env_actions = l_env_actions l"
| "label_get l Sys_actions = l_sys_actions l"
| "label_get l Actions = l_actions l"

record ts_states =
  st_all :: "pyval list"
  st_initial :: "pyval list"
  st_label_of :: "pyval \<Rightarrow> label"

type_synonym transitions = "(pyval \<times> pyval \<times> label) list"

text \<open>
  Modelled from the spec: \<^verbatim>\<open>transitions.find\<close> belongs to the \<^verbatim>\<open>transys\<close> package, which
  is not among the sources. The transition relation is a finite set of labeled pairs of
  states; \<^verbatim>\<open>find(from_states)\<close> gives the triples \<^verbatim>\<open>(from_state, to_state, label)\<close> of
  the transitions that leave one of the given states, so a state without outgoing
  transition gives the empty list.
\<close>

definition trans_find :: "transitions \<Rightarrow> pyval list \<Rightarrow> transitions" where
  "trans_find trns from_states = filter (\<lambda>(f, t, l). f \<in> set from_states) trns"

text \<open>
  \<^verbatim>\<open>warn(msg)\<close> is recorded by appending the message to a list of warnings, which every
  encoder function returns next to its result; an exception keeps the warnings issued
  before it.
\<close>

type_synonym 'a warned = "(error + 'a) \<times> string list"

fun for_each ::
  "('a \<Rightarrow> error + (string list \<times> string list)) \<Rightarrow> 'a list \<Rightarrow> string list warned" where
  "for_each body [] = (Inr [], [])"
| "for_each body (x # xs) =
     (case body x of
        Inl e \<Rightarrow> (Inl e, [])
      | Inr (c, w) \<Rightarrow>
          (case for_each body xs of
             (Inl e, ws) \<Rightarrow> (Inl e, w @ ws)
           | (Inr cs, ws) \<Rightarrow> (Inr (c @ cs), w @ ws)))"

definition conj_action ::
  "label \<Rightarrow> action_type \<Rightarrow> bool \<Rightarrow> (pyval, pyval) dict option \<Rightarrow> error + string" where
  "conj_action l action_type nxt ids =
     (case label_get l action_type of
        None \<Rightarrow> Inr ''''
      | Some action0 \<Rightarrow>
          bindE (case ids of None \<Rightarrow> Inr action0 | Some d \<Rightarrow> getitem d action0)
            (\<lambda>action.
               if action = PStr '''' then Inr ''''
               else if nxt then Inr ('' && X'' @ pstr action)
               else Inr ('' && '' @ pstr action)))"

definition sprint_aps :: "label \<Rightarrow> pyval list \<Rightarrow> string" where
  "sprint_aps l aps =
     (let tmp0 = (case l_ap l of Some lab \<Rightarrow> conj_intersection aps lab False | None \<Rightarrow> '''');
          tmp1 = (case l_ap l of Some lab \<Rightarrow> conj_neg_diff aps lab False
                  | None \<Rightarrow> conj_neg aps False)
      in if length tmp0 > 0 \<and> length tmp1 > 0 then tmp0 @ '' && '' @ tmp1 else tmp0 @ tmp1)"

definition no_initial_msg :: string where
  "no_initial_msg =
     ''FTS has no initial states.'' @ [CHR 0x0A] @
     ''Enforcing this renders False the GR(1):'' @ [CHR 0x0A] @
     '' - guarantee if this is a system TS,'' @ [CHR 0x0A] @
     ''   so the spec becomes trivially False.'' @ [CHR 0x0A] @
     '' - assumption if this is an environment TS,'' @ [CHR 0x0A] @
     ''   so the spec becomes trivially True.''"

definition init_label_clause ::
  "ts_states \<Rightarrow> (pyval, pyval) dict \<Rightarrow> pyval list \<Rightarrow> pyval \<Rightarrow> error + string list" where
  "init_label_clause states state_ids aps state =
     bindE (getitem state_ids state) (\<lambda>state_id.
       let ap_str = sprint_aps (st_label_of states state) aps in
       if ap_str = [] then Inr []
       else Inr [''!('' @ pstr state_id @ '') || ('' @ ap_str @ '')''])"

definition sys_init_from_ts ::
  "ts_states \<Rightarrow> (pyval, pyval) dict \<Rightarrow> pyval list \<Rightarrow> bool \<Rightarrow> string list warned" where
  "sys_init_from_ts states state_ids aps ignore_initial =
     (case mapE (init_label_clause states state_ids aps) (st_initial states) of
        Inl e \<Rightarrow> (Inl e, [])
      | Inr cls \<Rightarrow>
          (let init = concat cls in
           if ignore_initial then (Inr init, [])
           else if st_initial states = [] then (Inr (init @ [''False'']), [no_initial_msg])
           else (bindE (mapE (getitem state_ids) (st_initial states))
                   (\<lambda>ids. Inr (init @ [disj_str ids])), [])))"

definition sys_postcond ::
  "(pyval, pyval) dict \<Rightarrow> (pyval, pyval) dict option \<Rightarrow> (pyval, pyval) dict option
     \<Rightarrow> (pyval, pyval) dict option \<Rightarrow> pyval \<times> pyval \<times> label \<Rightarrow> error + string" where
  "sys_postcond state_ids action_ids sys_action_ids env_action_ids e =
     (case e of (from_state, to_state, l) \<Rightarrow>
        bindE (getitem state_ids to_state) (\<lambda>to_state_id.
        bindE (conj_action l Env_actions False env_action_ids) (\<lambda>ea.
        bindE (conj_action l Sys_actions False sys_action_ids) (\<lambda>sa.
        bindE (conj_action l Actions False action_ids) (\<lambda>a.
          Inr (pstr to_state_id @ ea @ sa @ a))))))"

definition sys_trans_body ::
  "(pyval, pyval) dict \<Rightarrow> transitions \<Rightarrow> (pyval, pyval) dict option
     \<Rightarrow> (pyval, pyval) dict option \<Rightarrow> (pyval, pyval) dict option \<Rightarrow> pyval
     \<Rightarrow> error + (string list \<times> string list)" where
  "sys_trans_body state_ids trns action_ids sys_action_ids env_action_ids from_state =
     bindE (getitem state_ids from_state) (\<lambda>from_state_id.
       let precond = pstr from_state_id;
           cur_trans = trans_find trns [from_state] in
       if cur_trans = [] then Inr ([precond @ '' -> X(False)''], [])
       else bindE (mapE (sys_postcond state_ids action_ids sys_action_ids env_action_ids)
                     cur_trans)
              (\<lambda>cur_str. Inr ([precond @ '' -> X('' @ disj_str (map PStr cur_str) @ '')''], [])))"

definition sys_trans_from_ts ::
  "ts_states \<Rightarrow> (pyval, pyval) dict \<Rightarrow> transitions \<Rightarrow> (pyval, pyval) dict option
     \<Rightarrow> (pyval, pyval) dict option \<Rightarrow> (pyval, pyval) dict option \<Rightarrow> string list warned" where
  "sys_trans_from_ts states state_ids trns action_ids sys_action_ids env_action_ids =
     for_each (sys_trans_body state_ids trns action_ids sys_action_ids env_action_ids)
       (st_all states)"

definition env_dead_end_msg :: string where
  "env_dead_end_msg =
     ''Environment dead-end found.'' @ [CHR 0x0A] @
     ''If sys can force env to dead-end,'' @ [CHR 0x0A] @
     ''then GR(1) assumption becomes False,'' @ [CHR 0x0A] @
     ''and spec trivially True.''"

text \<open>
  One pass of the inner loop of \<^verbatim>\<open>env_trans_from_env_ts\<close>: the parenthesized
  postcondition of an edge, and whether the edge is free, that is whether
  \<^verbatim>\<open>_conj_action(label, 'sys_actions', ids=sys_action_ids)\<close> is the empty string.
\<close>

definition env_postcond ::
  "(pyval, pyval) dict \<Rightarrow> (pyval, pyval) dict option \<Rightarrow> (pyval, pyval) dict option
     \<Rightarrow> (pyval, pyval) dict option \<Rightarrow> pyval \<times> pyval \<times> label \<Rightarrow> error + (string \<times> bool)" where
  "env_postcond state_ids action_ids env_action_ids sys_action_ids e =
     (case e of (from_state, to_state, l) \<Rightarrow>
        bindE (getitem state_ids to_state) (\<lambda>to_state_id.
        bindE (conj_action l Env_actions True env_action_ids) (\<lambda>ea.
        bindE (conj_action l Actions True action_ids) (\<lambda>a.
        bindE (conj_action l Sys_actions False sys_action_ids) (\<lambda>sa.
          Inr (pstr (PStr (''X'' @ pstr to_state_id @ ea @ a @ sa)), sa = ''''))))))"

definition env_trans_body ::
  "(pyval, pyval) dict \<Rightarrow> transitions \<Rightarrow> (pyval, pyval) dict option
     \<Rightarrow> (pyval, pyval) dict option \<Rightarrow> (pyval, pyval) dict option \<Rightarrow> pyval
     \<Rightarrow> error + (string list \<times> string list)" where
  "env_trans_body state_ids trns action_ids env_action_ids sys_action_ids from_state =
     bindE (getitem state_ids from_state) (\<lambda>from_state_id.
       let precond = pstr from_state_id;
           cur_trans = trans_find trns [from_state] in
       if cur_trans = [] then Inr ([precond @ '' -> X(False)''], [env_dead_end_msg])
       else bindE (mapE (env_postcond state_ids action_ids env_action_ids sys_action_ids)
                     cur_trans)
              (\<lambda>posts.
                 let found_free = list_ex snd posts;
                     cur_list = map fst posts @
                       (case sys_action_ids of
                          None \<Rightarrow> []
                        | Some d \<Rightarrow>
                            if \<not> found_free \<and> d \<noteq> [] then [conj_neg (dict_values d) True]
                            else [])
                 in Inr ([pstr (PStr precond) @ '' -> ('' @ disj_str (map PStr cur_list)
                            @ '')''], [])))"

definition env_trans_from_env_ts ::
  "ts_states \<Rightarrow> (pyval, pyval) dict \<Rightarrow> transitions \<Rightarrow> (pyval, pyval) dict option
     \<Rightarrow> (pyval, pyval) dict option \<Rightarrow> (pyval, pyval) dict option \<Rightarrow> string list warned" where
  "env_trans_from_env_ts states state_ids trns action_ids env_action_ids sys_action_ids =
     for_each (env_trans_body state_ids trns action_ids env_action_ids sys_action_ids)
       (st_all states)"

text \<open>
  What the transition-system provider guarantees to the encoder: every state, and every
  target of a transition, has an identifier, and every action tag on a transition is a key
  of the identifier map used for its kind (when a map is given).
\<close>

definition tag_known :: "(pyval, pyval) dict option \<Rightarrow> pyval option \<Rightarrow> bool" where
  "tag_known ids a =
     (case a of
        None \<Rightarrow> True
      | Some x \<Rightarrow> (case ids of None \<Rightarrow> True | Some d \<Rightarrow> map_of d x \<noteq> None))"

definition ts_covered ::
  "ts_states \<Rightarrow> (pyval, pyval) dict \<Rightarrow> transitions \<Rightarrow> (pyval, pyval) dict option
     \<Rightarrow> (pyval, pyval) dict option \<Rightarrow> (pyval, pyval) dict option \<Rightarrow> bool" where
  "ts_covered states state_ids trns action_ids env_action_ids sys_action_ids =
     (list_all (\<lambda>s. map_of state_ids s \<noteq> None) (st_all states)
      \<and> list_all (\<lambda>(f, t, l). map_of state_ids t \<noteq> None
                      \<and> tag_known env_action_ids (l_env_actions l)
                      \<and> tag_known sys_action_ids (l_sys_actions l)
                      \<and> tag_known action_ids (l_actions l)) trns)"

section \<open>Formula nodes of tulip/spec/ast.py\<close>

text \<open>
  Every node registers itself in a \<^verbatim>\<open>networkx\<close> directed graph under the key
  \<^verbatim>\<open>id(self)\<close>, with the node object as the attribute \<^verbatim>\<open>ast_node\<close>; a unary or binary
  node adds an edge from its own key to the key of each operand, a binary node tagging the
  edge with \<^verbatim>\<open>pos='left'\<close> or \<^verbatim>\<open>pos='right'\<close>. The graph is modelled by the node stored
  under each key and, for each key, the list of its outgoing edges with their optional
  \<^verbatim>\<open>pos\<close>. A temporal node stores the operator it was given after translation by
  \<^verbatim>\<open>TEMPORAL_OP_MAP\<close>; a constant stores its text between double quotes.
\<close>

datatype ast_node =
    Num int
  | Var string
  | Const string
  | Bool bool
  | Not_node
  | UnTempOp string
  | And
  | Or
  | Xor
  | Imp
  | BiImp
  | BiTempOp string
  | Comparator string
  | Arithmetic string

record graph =
  g_node :: "int \<rightharpoonup> ast_node"
  g_succ :: "int \<Rightarrow> (int \<times> string option) list"

datatype dialect = Gr1c | Jtlv | Smv | Promela | Python

definition TEMPORAL_OP_MAP :: "(string, string) dict" where
  "TEMPORAL_OP_MAP =
     [(''G'', ''G''), (''F'', ''F''), (''X'', ''X''),
      (''[]'', ''G''), (''<>'', ''F''), (''next'', ''X''),
      (''U'', ''U''), (''V'', ''R''), (''R'', ''R''),
      ([CHR 0x27], ''X''), (''FALSE'', ''False''), (''TRUE'', ''True'')]"

definition JTLV_MAP :: "(string, string) dict" where
  "JTLV_MAP =
     [(''G'', ''[]''), (''F'', ''<>''), (''X'', ''next''),
      (''U'', ''U''), (''||'', ''||''), (''&&'', ''&&''),
      (''False'', ''FALSE''), (''True'', ''TRUE'')]"

definition GR1C_MAP :: "(string, string) dict" where
  "GR1C_MAP =
     [(''G'', ''[]''), (''F'', ''<>''), (''X'', [CHR 0x27]), (''||'', ''|''), (''&&'', ''&''),
      (''False'', ''False''), (''True'', ''True'')]"

definition SMV_MAP :: "(string, string) dict" where
  "SMV_MAP = [(''G'', ''G''), (''F'', ''F''), (''X'', ''X''), (''U'', ''U''), (''R'', ''V'')]"

definition SPIN_MAP :: "(string, string) dict" where
  "SPIN_MAP = [(''G'', ''[]''), (''F'', ''<>''), (''U'', ''U''), (''R'', ''V'')]"

definition PYTHON_MAP :: "(string, string) dict" where
  "PYTHON_MAP = [(''&&'', ''and''), (''||'', ''or''), (''!'', ''not''), (''xor'', ''^'')]"

text \<open>The constructors that translate their argument.\<close>

definition new_Const :: "string \<Rightarrow> ast_node" where
  "new_Const t = Const ([CHR 0x22] @ t @ [CHR 0x22])"

definition new_UnTempOp :: "string \<Rightarrow> error + ast_node" where
  "new_UnTempOp operator = bindE (getitem TEMPORAL_OP_MAP operator) (\<lambda>x. Inr (UnTempOp x))"

definition new_BiTempOp :: "string \<Rightarrow> error + ast_node" where
  "new_BiTempOp operator = bindE (getitem TEMPORAL_OP_MAP operator) (\<lambda>x. Inr (BiTempOp x))"

definition new_Comparator :: "string \<Rightarrow> ast_node" where
  "new_Comparator operator = Comparator (if operator = ''=='' then ''='' else operator)"

text \<open>
  \<^verbatim>\<open>Unary.operand\<close> returns \<^verbatim>\<open>set(self.graph.succ[u]).pop()\<close>, an element of the set of
  successor keys (the first edge here), and raises \<^verbatim>\<open>KeyError\<close> on the empty set.
  \<^verbatim>\<open>Binary._child(pos)\<close> returns the target key of the first edge whose \<^verbatim>\<open>pos\<close> is the
  one asked for, and \<^verbatim>\<open>None\<close> when there is none; reading \<^verbatim>\<open>d['pos']\<close> on an edge
  without it raises \<^verbatim>\<open>KeyError\<close>. Both return a key of the graph, that is an
  \<^verbatim>\<open>int\<close>, not the node stored under it.
\<close>

definition operand :: "graph \<Rightarrow> int \<Rightarrow> error + int" where
  "operand g u = (case g_succ g u of [] \<Rightarrow> Inl KeyError | (v, d) # es \<Rightarrow> Inr v)"

fun child :: "(int \<times> string option) list \<Rightarrow> string \<Rightarrow> error + int option" where
  "child [] pos = Inr None"
| "child ((v, None) # es) pos = Inl KeyError"
| "child ((v, Some p) # es) pos = (if p = pos then Inr (Some v) else child es pos)"

definition op_l :: "graph \<Rightarrow> int \<Rightarrow> error + int option" where
  "op_l g u = child (g_succ g u) ''left''"

definition op_r :: "graph \<Rightarrow> int \<Rightarrow> error + int option" where
  "op_r g u = child (g_succ g u) ''right''"

text \<open>
  In \<^verbatim>\<open>flatten\<close>, \<^verbatim>\<open>flattener(self.operand, **args)\<close> calls \<^verbatim>\<open>to_gr1c\<close>, \<^verbatim>\<open>to_jtlv\<close>,
  \<^verbatim>\<open>to_smv\<close>, \<^verbatim>\<open>to_promela\<close> or \<^verbatim>\<open>to_python\<close> on what \<^verbatim>\<open>operand\<close>, \<^verbatim>\<open>op_l\<close> or
  \<^verbatim>\<open>op_r\<close> returned. That is an \<^verbatim>\<open>int\<close> or \<^verbatim>\<open>None\<close>, which has none of these
  methods: the call raises \<^verbatim>\<open>AttributeError\<close>, and the \<^verbatim>\<open>except AttributeError\<close>
  branch takes \<^verbatim>\<open>str\<close> of the key. With the default flattener \<^verbatim>\<open>str\<close> the text is the
  same.
\<close>

definition key_text :: "int option \<Rightarrow> string" where
  "key_text k = (case k of None \<Rightarrow> ''None'' | Some v \<Rightarrow> str_int v)"

definition Unary_flatten :: "graph \<Rightarrow> int \<Rightarrow> string \<Rightarrow> error + string" where
  "Unary_flatten g u op =
     bindE (operand g u) (\<lambda>v. Inr (join '' '' [''('', op, key_text (Some v), '')'']))"

definition Binary_flatten :: "graph \<Rightarrow> int \<Rightarrow> string \<Rightarrow> error + string" where
  "Binary_flatten g u op =
     bindE (op_l g u) (\<lambda>l.
     bindE (op_r g u) (\<lambda>r.
       Inr (join '' '' [''('', key_text l, op, key_text r, '')''])))"

text \<open>
  \<^verbatim>\<open>try: ... except KeyError: raise LTLException(...)\<close> around a table lookup and the
  call of \<^verbatim>\<open>flatten\<close>.
\<close>

definition not_supported :: "string \<Rightarrow> string \<Rightarrow> error" where
  "not_supported op syn =
     LTLException (''Operator '' @ op @ '' not supported in '' @ syn @ '' syntax map'')"

definition except_KeyError :: "error \<Rightarrow> error + 'a \<Rightarrow> error + 'a" where
  "except_KeyError e r = (case r of Inl KeyError \<Rightarrow> Inl e | Inl x \<Rightarrow> Inl x | Inr y \<Rightarrow> Inr y)"

definition bool_repr :: "bool \<Rightarrow> string" where
  "bool_repr b = (if b then ''True'' else ''False'')"

definition to_gr1c :: "graph \<Rightarrow> int \<Rightarrow> bool \<Rightarrow> error + string" where
  "to_gr1c g u primed =
     (case g_node g u of
        None \<Rightarrow> Inl AttributeError
      | Some n \<Rightarrow>
          (case n of
             Num i \<Rightarrow> Inr (str_int i)
           | Var v \<Rightarrow> Inr (if primed then v @ [CHR 0x27] else v)
           | Const c \<Rightarrow> Inr (if primed then c @ [CHR 0x27] else c)
           | Bool b \<Rightarrow> except_KeyError AttributeError (getitem GR1C_MAP (bool_repr b))
           | Not_node \<Rightarrow> Unary_flatten g u ''!''
           | UnTempOp op \<Rightarrow>
               if op = ''X'' then Unary_flatten g u ''''
               else except_KeyError (not_supported op ''gr1c'')
                      (bindE (getitem GR1C_MAP op) (Unary_flatten g u))
           | And \<Rightarrow> Binary_flatten g u ''&''
           | Or \<Rightarrow> Binary_flatten g u ''|''
           | Xor \<Rightarrow> Binary_flatten g u ''xor''
           | Imp \<Rightarrow> Binary_flatten g u ''->''
           | BiImp \<Rightarrow> Binary_flatten g u ''<->''
           | BiTempOp op \<Rightarrow>
               except_KeyError (not_supported op ''gr1c'')
                 (bindE (getitem GR1C_MAP op) (Binary_flatten g u))
           | Comparator op \<Rightarrow> Binary_flatten g u op
           | Arithmetic op \<Rightarrow> Binary_flatten g u op))"

definition to_jtlv :: "graph \<Rightarrow> int \<Rightarrow> error + string" where
  "to_jtlv g u =
     (case g_node g u of
        None \<Rightarrow> Inl AttributeError
      | Some n \<Rightarrow>
          (case n of
             Num i \<Rightarrow> Inr (str_int i)
           | Var v \<Rightarrow> Inr (''('' @ v @ '')'')
           | Const c \<Rightarrow> Inr (''('' @ c @ '')'')
           | Bool b \<Rightarrow> except_KeyError AttributeError (getitem JTLV_MAP (bool_repr b))
           | Not_node \<Rightarrow> Unary_flatten g u ''!''
           | UnTempOp op \<Rightarrow>
               except_KeyError (not_supported op ''JTLV'')
                 (bindE (getitem JTLV_MAP op) (Unary_flatten g u))
           | And \<Rightarrow> Binary_flatten g u ''&&''
           | Or \<Rightarrow> Binary_flatten g u ''||''
           | Xor \<Rightarrow> Binary_flatten g u ''xor''
           | Imp \<Rightarrow> Binary_flatten g u ''->''
           | BiImp \<Rightarrow> Binary_flatten g u ''<->''
           | BiTempOp op \<Rightarrow>
               except_KeyError (not_supported op ''JTLV'')
                 (bindE (getitem JTLV_MAP op) (Binary_flatten g u))
           | Comparator op \<Rightarrow> Binary_flatten g u op
           | Arithmetic op \<Rightarrow> Binary_flatten g u op))"

definition to_smv :: "graph \<Rightarrow> int \<Rightarrow> error + string" where
  "to_smv g u =
     (case g_node g u of
        None \<Rightarrow> Inl AttributeError
      | Some n \<Rightarrow>
          (case n of
             Num i \<Rightarrow> Inr (str_int i)
           | Var v \<Rightarrow> Inr v
           | Const c \<Rightarrow> Inr c
           | Bool b \<Rightarrow> Inr (bool_repr b)
           | Not_node \<Rightarrow> Unary_flatten g u ''!''
           | UnTempOp op \<Rightarrow> bindE (getitem SMV_MAP op) (Unary_flatten g u)
           | And \<Rightarrow> Binary_flatten g u ''&''
           | Or \<Rightarrow> Binary_flatten g u ''|''
           | Xor \<Rightarrow> Binary_flatten g u ''xor''
           | Imp \<Rightarrow> Binary_flatten g u ''->''
           | BiImp \<Rightarrow> Binary_flatten g u ''<->''
           | BiTempOp op \<Rightarrow> bindE (getitem SMV_MAP op) (Binary_flatten g u)
           | Comparator op \<Rightarrow> Binary_flatten g u op
           | Arithmetic op \<Rightarrow> Binary_flatten g u op))"

definition to_promela :: "graph \<Rightarrow> int \<Rightarrow> error + string" where
  "to_promela g u =
     (case g_node g u of
        None \<Rightarrow> Inl AttributeError
      | Some n \<Rightarrow>
          (case n of
             Num i \<Rightarrow> Inr (str_int i)
           | Var v \<Rightarrow> Inr v
           | Const c \<Rightarrow> Inr c
           | Bool b \<Rightarrow> Inr (bool_repr b)
           | Not_node \<Rightarrow> Unary_flatten g u ''!''
           | UnTempOp op \<Rightarrow>
               except_KeyError (not_supported op ''Promela'')
                 (bindE (getitem SPIN_MAP op) (Unary_flatten g u))
           | And \<Rightarrow> Binary_flatten g u ''&&''
           | Or \<Rightarrow> Binary_flatten g u ''||''
           | Xor \<Rightarrow> Binary_flatten g u ''xor''
           | Imp \<Rightarrow> Binary_flatten g u ''->''
           | BiImp \<Rightarrow> Binary_flatten g u ''<->''
           | BiTempOp op \<Rightarrow>
               except_KeyError (not_supported op ''Promela'')
                 (bindE (getitem SPIN_MAP op) (Binary_flatten g u))
           | Comparator op \<Rightarrow> Binary_flatten g u (if op = ''='' then ''=='' else op)
           | Arithmetic op \<Rightarrow> Binary_flatten g u op))"

definition to_python :: "graph \<Rightarrow> int \<Rightarrow> error + string" where
  "to_python g u =
     (case g_node g u of
        None \<Rightarrow> Inl AttributeError
      | Some n \<Rightarrow>
          (case n of
             Num i \<Rightarrow> Inr (str_int i)
           | Var v \<Rightarrow> Inr v
           | Const c \<Rightarrow> Inr c
           | Bool b \<Rightarrow> Inr (bool_repr b)
           | Not_node \<Rightarrow> getitem PYTHON_MAP ''!''
           | UnTempOp op \<Rightarrow> Unary_flatten g u op
           | And \<Rightarrow> Binary_flatten g u ''and''
           | Or \<Rightarrow> Binary_flatten g u ''or''
           | Xor \<Rightarrow> Binary_flatten g u ''^''
           | Imp \<Rightarrow>
               bindE (op_l g u) (\<lambda>l. bindE (op_r g u) (\<lambda>r.
                 Inr (''( (not ('' @ key_text l @ '')) or '' @ key_text r @ '')'')))
           | BiImp \<Rightarrow>
               bindE (op_l g u) (\<lambda>l. bindE (op_r g u) (\<lambda>r.
                 Inr (''( '' @ key_text l @ '' and '' @ key_text r @ '' ) or not ( '' @
                      key_text l @ '' or '' @ key_text r @ '' )'')))
           | BiTempOp op \<Rightarrow> Binary_flatten g u op
           | Comparator op \<Rightarrow> Binary_flatten g u (if op = ''='' then ''=='' else op)
           | Arithmetic op \<Rightarrow> Binary_flatten g u op))"

definition to_dialect :: "dialect \<Rightarrow> graph \<Rightarrow> int \<Rightarrow> bool \<Rightarrow> error + string" where
  "to_dialect d g u primed =
     (case d of
        Gr1c \<Rightarrow> to_gr1c g u primed
      | Jtlv \<Rightarrow> to_jtlv g u
      | Smv \<Rightarrow> to_smv g u
      | Promela \<Rightarrow> to_promela g u
      | Python \<Rightarrow> to_python g u)"

definition is_binary :: "ast_node \<Rightarrow> bool" where
  "is_binary n =
     (case n of
        And \<Rightarrow> True | Or \<Rightarrow> True | Xor \<Rightarrow> True | Imp \<Rightarrow> True | BiImp \<Rightarrow> True
      | BiTempOp op \<Rightarrow> True | Comparator op \<Rightarrow> True | Arithmetic op \<Rightarrow> True
      | Num i \<Rightarrow> False | Var v \<Rightarrow> False | Const c \<Rightarrow> False | Bool b \<Rightarrow> False
      | Not_node \<Rightarrow> False | UnTempOp op \<Rightarrow> False)"

text \<open>
  A formula whose root is a negation of \<open>p R q\<close>: the keys 1 and 2 hold the variables,
  3 the release node built by \<^verbatim>\<open>BiTempOp('R', p, q, g)\<close>, 4 the negation built by
  \<^verbatim>\<open>Not('!', r, g)\<close>.
\<close>

definition not_release :: graph where
  "not_release =
     \<lparr>g_node = [1 \<mapsto> Var ''p'', 2 \<mapsto> Var ''q'', 3 \<mapsto> BiTempOp ''R'', 4 \<mapsto> Not_node],
      g_succ = (\<lambda>u. if u = 3 then [(1, Some ''left''), (2, Some ''right'')]
                     else if u = 4 then [(3, None)] else [])\<rparr>"

text \<open>
  The conjunction \<open>a & b\<close>: the keys 1 and 2 hold the variables, 3 the node built by
  \<^verbatim>\<open>And('&', a, b, g)\<close>.
\<close>

definition and_ab :: graph where
  "and_ab =
     \<lparr>g_node = [1 \<mapsto> Var ''a'', 2 \<mapsto> Var ''b'', 3 \<mapsto> And],
      g_succ = (\<lambda>u. if u = 3 then [(1, Some ''left''), (2, Some ''right'')] else [])\<rparr>"

section \<open>Degenerate label lists\<close>

lemma mutex_few:
  "length (filter (\<lambda>x. x \<noteq> PStr '''') xs) \<le> 1 \<Longrightarrow> mutex xs = []"
  by (simp add: mutex_def Let_def)

text \<open>
  Claim C8. \<^verbatim>\<open>mutex\<close> of the empty list and of a one-label list is the empty formula
  list, and so is \<^verbatim>\<open>mutex\<close> of any list that keeps at most one label once the labels equal
  to the empty string are skipped. \<^verbatim>\<open>exactly_one\<close> of the empty list is the empty list;
  \<^verbatim>\<open>exactly_one\<close> of one label \<open>x\<close> is the single formula \<^verbatim>\<open>(x)\<close>: the label asserted
  on its own, in parentheses, with no disjunction around it.
\<close>

theorem mutex_exactly_one_degenerate:
  "mutex [] = []
   \<and> mutex [x] = []
   \<and> (length (filter (\<lambda>y. y \<noteq> PStr '''') xs) \<le> 1 \<longrightarrow> mutex xs = [])
   \<and> exactly_one [] = []
   \<and> exactly_one [x] = [''('' @ str x @ '')'']"
proof -
  have a: "mutex [] = []" by (simp add: mutex_def)
  have b: "mutex [x] = []" by (simp add: mutex_def Let_def)
  have c: "length (filter (\<lambda>y. y \<noteq> PStr '''') xs) \<le> 1 \<longrightarrow> mutex xs = []"
    using mutex_few by blast
  have d: "exactly_one [] = []" by (simp add: exactly_one_def)
  have e: "exactly_one [x] = [''('' @ str x @ '')'']" by (simp add: exactly_one_def pstr_def)
  from a b c d e show ?thesis by blast
qed

theorem mutex_exactly_one_degenerate_witness:
  "length (filter (\<lambda>y. y \<noteq> PStr '''') [PStr '''', PStr ''a'', PStr '''']) \<le> 1
   \<and> mutex [PStr '''', PStr ''a'', PStr ''''] = []"
  using mutex_exactly_one_degenerate [of "PStr ''a''" "[PStr '''', PStr ''a'', PStr '''']"]
  by simp

section \<open>Exactly-one implies mutual exclusion\<close>

lemma render_conj_neg_diff_form:
  "render (conj_neg_diff_form set0 set1) = conj_neg_diff set0 set1 True"
  by (simp add: conj_neg_diff_form_def conj_neg_diff_def o_def)

lemma mutex_renders: "mutex xs = map render (mutex_form xs)"
  by (simp add: mutex_def mutex_form_def Let_def conj_str_def o_def
      render_conj_neg_diff_form)

lemma exactly_one_renders: "exactly_one xs = map render (exactly_one_form xs)"
  by (simp add: exactly_one_def exactly_one_form_def disj_str_def pstr_def o_def
      render_conj_neg_diff_form)

lemma holds_conj_neg_diff_form:
  "holds v (conj_neg_diff_form set0 [x]) = (\<forall>y \<in> set set0. y \<noteq> x \<longrightarrow> \<not> v (str y))"
  by (auto simp: conj_neg_diff_form_def list_all_iff)

lemma exactly_one_form_sem:
  assumes "1 < length xs" and "list_all (holds v) (exactly_one_form xs)"
  shows "\<exists>x \<in> set xs. v (str x) \<and> (\<forall>y \<in> set xs. y \<noteq> x \<longrightarrow> \<not> v (str y))"
  using assms
  by (auto simp: exactly_one_form_def list_ex_iff holds_conj_neg_diff_form)

lemma mutex_form_sem:
  assumes "\<forall>x \<in> set xs. \<forall>y \<in> set xs. v (str x) \<longrightarrow> y \<noteq> x \<longrightarrow> \<not> v (str y)"
  shows "list_all (holds v) (mutex_form xs)"
  using assms
  by (auto simp: mutex_form_def Let_def list_all_iff holds_conj_neg_diff_form)

lemma exactly_one_form_mutex_form:
  assumes "list_all (holds v) (exactly_one_form xs)"
  shows "list_all (holds v) (mutex_form xs)"
proof (cases "1 < length xs")
  case True
  from exactly_one_form_sem [OF True assms] obtain x where
    x: "x \<in> set xs" "v (str x)" "\<forall>y \<in> set xs. y \<noteq> x \<longrightarrow> \<not> v (str y)"
    by blast
  have "\<forall>a \<in> set xs. \<forall>b \<in> set xs. v (str a) \<longrightarrow> b \<noteq> a \<longrightarrow> \<not> v (str b)"
    using x by metis
  then show ?thesis by (rule mutex_form_sem)
next
  case False
  then have "length (filter (\<lambda>x. x \<noteq> PStr '''') xs) \<le> 1"
    using length_filter_le [of "\<lambda>x. x \<noteq> PStr ''''" xs] by linarith
  then show ?thesis by (simp add: mutex_form_def Let_def)
qed

text \<open>
  Claim C7. For every list of labels and every Boolean valuation of the label texts:
  the formulas returned by \<^verbatim>\<open>exactly_one\<close> and by \<^verbatim>\<open>mutex\<close> are the printed forms of
  the trees \<open>exactly_one_form\<close> and \<open>mutex_form\<close>, and a valuation under which every
  formula of \<^verbatim>\<open>exactly_one\<close> holds makes every formula of \<^verbatim>\<open>mutex\<close> hold.
\<close>

theorem exactly_one_implies_mutex:
  "exactly_one xs = map render (exactly_one_form xs)
   \<and> mutex xs = map render (mutex_form xs)
   \<and> (list_all (holds v) (exactly_one_form xs) \<longrightarrow> list_all (holds v) (mutex_form xs))"
  using exactly_one_renders mutex_renders exactly_one_form_mutex_form by blast

theorem exactly_one_implies_mutex_witness:
  "exactly_one [PStr ''a'', PStr ''b'', PStr ''c'']
     = [''(((a) && !(b) && !(c)) || ((b) && !(a) && !(c)) || ((c) && !(a) && !(b)))'']
   \<and> mutex [PStr ''a'', PStr ''b'', PStr ''c'']
     = [''(!(a) || (!(b) && !(c))) && (!(b) || (!(a) && !(c))) && (!(c) || (!(a) && !(b)))'']
   \<and> list_all (holds (\<lambda>s. s = ''b'')) (exactly_one_form [PStr ''a'', PStr ''b'', PStr ''c''])
   \<and> list_all (holds (\<lambda>s. s = ''b'')) (mutex_form [PStr ''a'', PStr ''b'', PStr ''c''])"
proof -
  have h: "list_all (holds (\<lambda>s. s = ''b'')) (exactly_one_form [PStr ''a'', PStr ''b'', PStr ''c''])"
    by (simp add: exactly_one_form_def conj_neg_diff_form_def)
  have e: "exactly_one [PStr ''a'', PStr ''b'', PStr ''c'']
     = [''(((a) && !(b) && !(c)) || ((b) && !(a) && !(c)) || ((c) && !(a) && !(b)))'']"
    by (simp add: exactly_one_def disj_str_def conj_neg_diff_def)
  have m: "mutex [PStr ''a'', PStr ''b'', PStr ''c'']
     = [''(!(a) || (!(b) && !(c))) && (!(b) || (!(a) && !(c))) && (!(c) || (!(a) && !(b)))'']"
    by (simp add: mutex_def conj_str_def conj_neg_diff_def)
  from h e m
    exactly_one_implies_mutex [of "[PStr ''a'', PStr ''b'', PStr ''c'']" "\<lambda>s. s = ''b''"]
  show ?thesis by blast
qed

section \<open>Boolean encoding of small state sets\<close>

lemma map_of_dict_comp:
  "map_of (dict_comp f xs) k = (if k \<in> set xs then Some (f k) else None)"
  by (induction xs) (auto simp: dict_comp_def)

lemma update_boolean_apply:
  "update_boolean vars xs k = (if k \<in> set xs then Some Boolean else vars k)"
  by (simp add: update_boolean_def map_add_def map_of_dict_comp)

text \<open>
  Claim C3. For every state list with fewer than three states and either value of
  \<^verbatim>\<open>bool_states\<close>, \<^verbatim>\<open>create_states\<close> returns the identity map on the states, declares
  every state as a \<^verbatim>\<open>'boolean'\<close> variable, appends \<^verbatim>\<open>exactly_one(states)\<close> to the safety
  formulas, and leaves every other entry of the variable mapping as it was: no variable
  with an integer or enumerated domain is declared.
\<close>

theorem create_states_small_boolean:
  assumes "length states < 3"
  shows "\<exists>vars'.
           create_states states vars trns statevar bool_states
             = Inr (dict_comp (\<lambda>x. x) states, vars', trns @ exactly_one states)
           \<and> (\<forall>s \<in> set states. vars' s = Some Boolean)
           \<and> (\<forall>k. k \<notin> set states \<longrightarrow> vars' k = vars k)"
  using assms by (simp add: create_states_def update_boolean_apply)

theorem create_states_small_boolean_witness:
  "length [PStr ''X0'', PStr ''X1''] < 3
   \<and> (\<exists>vars'. create_states [PStr ''X0'', PStr ''X1''] Map.empty [] ''loc'' False
         = Inr ([(PStr ''X0'', PStr ''X0''), (PStr ''X1'', PStr ''X1'')], vars',
                [''(((X0) && !(X1)) || ((X1) && !(X0)))''])
       \<and> vars' (PStr ''X0'') = Some Boolean \<and> vars' (PStr ''X1'') = Some Boolean
       \<and> vars' (PStr ''loc'') = None)"
proof -
  have h: "length [PStr ''X0'', PStr ''X1''] < 3" by simp
  have e: "exactly_one [PStr ''X0'', PStr ''X1''] = [''(((X0) && !(X1)) || ((X1) && !(X0)))'']"
    by (simp add: exactly_one_def disj_str_def conj_neg_diff_def)
  from create_states_small_boolean [OF h, of Map.empty "[]" "''loc''" False] e h
  show ?thesis by (auto simp: dict_comp_def)
qed

section \<open>Encoding of actions\<close>

lemma mapE_assign_text_strings:
  "\<forall>a \<in> set xs. \<not> is_int a \<Longrightarrow>
   mapE (assign_text var) xs = Inr (map (\<lambda>a. PStr (var @ '' = '' @ str a)) xs)"
  by (induction xs) (auto simp: assign_text_def is_int_def bindE_def split: pyval.splits)

lemma create_actions_no_mutex:
  assumes "actions \<noteq> []"
  shows "create_actions actions vars trns init actionvar bool_actions None
           = Inr (Some (dict_comp (\<lambda>x. x) actions), update_boolean vars actions, trns, init)"
  using assms by (simp add: create_actions_def must_options_def bindE_def Let_def)

lemma create_actions_int_encoding:
  assumes "actions \<noteq> []" and "m = ''mutex'' \<or> m = ''xor''"
  shows "create_actions actions vars trns init actionvar False (Some m)
           = bindE (actions2ints actions actionvar (m = ''xor'')) (\<lambda>(action_ids, dmn).
               Inr (Some action_ids, vars(PStr actionvar \<mapsto> dmn), trns, init))"
  using assms by (auto simp: create_actions_def must_options_def bindE_def Let_def)

lemma actions2ints_int:
  assumes "\<forall>a \<in> set actions. is_int a"
  shows "actions2ints actions actionvar min_one
           = Inr (dict_comp (\<lambda>x. x) actions,
                  IntRange 0 (if min_one then int (length actions) - 1
                              else int (length actions)))"
  using assms by (simp add: actions2ints_def list_all_iff)

lemma actions2ints_str:
  assumes "actions \<noteq> []" and "\<forall>a \<in> set actions. \<not> is_int a"
  shows "actions2ints actions actionvar min_one
           = Inr (zip actions (map (\<lambda>a. PStr (actionvar @ '' = '' @ str a)) actions),
                  Enum (if min_one then actions else actions @ [PStr (actionvar @ ''none'')]))"
proof -
  from assms have "\<not> list_all is_int actions"
    by (cases actions) (auto simp: list_all_iff)
  then show ?thesis
    using assms(2) by (simp add: actions2ints_def mapE_assign_text_strings bindE_def)
qed

text \<open>
  What \<^verbatim>\<open>create_actions\<close> declares for a non-empty list of \<open>N\<close> actions. With
  \<^verbatim>\<open>actions_must = None\<close> every action becomes a \<^verbatim>\<open>'boolean'\<close> variable whatever
  \<^verbatim>\<open>bool_actions\<close> is, and no other entry of the variable mapping changes. With the
  integer encoding, integer-valued actions give the action variable the domain \<open>(0, N)\<close>
  under \<^verbatim>\<open>'mutex'\<close> and \<open>(0, N - 1)\<close> under \<^verbatim>\<open>'xor'\<close>; string-valued actions give it
  the action values followed by \<^verbatim>\<open>actionvar + 'none'\<close> under \<^verbatim>\<open>'mutex'\<close> and the action
  values alone under \<^verbatim>\<open>'xor'\<close>.
\<close>

lemma create_actions_domains:
  assumes "actions \<noteq> []"
  shows "(\<exists>vars'. create_actions actions vars trns init actionvar bool_actions None
                     = Inr (Some (map (\<lambda>x. (x, x)) actions), vars', trns, init)
                  \<and> (\<forall>k. vars' k = (if k \<in> set actions then Some Boolean else vars k)))
         \<and> ((\<forall>a \<in> set actions. is_int a) \<longrightarrow>
              create_actions actions vars trns init actionvar False (Some ''mutex'')
                = Inr (Some (map (\<lambda>x. (x, x)) actions),
                       vars(PStr actionvar \<mapsto> IntRange 0 (int (length actions))), trns, init)
              \<and> create_actions actions vars trns init actionvar False (Some ''xor'')
                = Inr (Some (map (\<lambda>x. (x, x)) actions),
                       vars(PStr actionvar \<mapsto> IntRange 0 (int (length actions) - 1)), trns, init))
         \<and> ((\<forall>a \<in> set actions. \<not> is_int a) \<longrightarrow>
              create_actions actions vars trns init actionvar False (Some ''mutex'')
                = Inr (Some (zip actions (map (\<lambda>a. PStr (actionvar @ '' = '' @ str a)) actions)),
                       vars(PStr actionvar \<mapsto> Enum (actions @ [PStr (actionvar @ ''none'')])),
                       trns, init)
              \<and> create_actions actions vars trns init actionvar False (Some ''xor'')
                = Inr (Some (zip actions (map (\<lambda>a. PStr (actionvar @ '' = '' @ str a)) actions)),
                       vars(PStr actionvar \<mapsto> Enum actions), trns, init))"
proof -
  have one: "\<exists>vars'. create_actions actions vars trns init actionvar bool_actions None
                     = Inr (Some (map (\<lambda>x. (x, x)) actions), vars', trns, init)
                  \<and> (\<forall>k. vars' k = (if k \<in> set actions then Some Boolean else vars k))"
    using create_actions_no_mutex [OF assms]
    by (simp add: dict_comp_def update_boolean_apply)
  have two: "(\<forall>a \<in> set actions. is_int a) \<longrightarrow>
              create_actions actions vars trns init actionvar False (Some ''mutex'')
                = Inr (Some (map (\<lambda>x. (x, x)) actions),
                       vars(PStr actionvar \<mapsto> IntRange 0 (int (length actions))), trns, init)
              \<and> create_actions actions vars trns init actionvar False (Some ''xor'')
                = Inr (Some (map (\<lambda>x. (x, x)) actions),
                       vars(PStr actionvar \<mapsto> IntRange 0 (int (length actions) - 1)), trns, init)"
    using assms
    by (simp add: create_actions_int_encoding actions2ints_int bindE_def dict_comp_def)
  have three: "(\<forall>a \<in> set actions. \<not> is_int a) \<longrightarrow>
              create_actions actions vars trns init actionvar False (Some ''mutex'')
                = Inr (Some (zip actions (map (\<lambda>a. PStr (actionvar @ '' = '' @ str a)) actions)),
                       vars(PStr actionvar \<mapsto> Enum (actions @ [PStr (actionvar @ ''none'')])),
                       trns, init)
              \<and> create_actions actions vars trns init actionvar False (Some ''xor'')
                = Inr (Some (zip actions (map (\<lambda>a. PStr (actionvar @ '' = '' @ str a)) actions)),
                       vars(PStr actionvar \<mapsto> Enum actions), trns, init)"
    using assms
    by (simp add: create_actions_int_encoding actions2ints_str bindE_def)
  from one two three show ?thesis by blast
qed

lemma create_actions_boolean_example:
  "\<exists>vars'. create_actions [PStr ''park'', PStr ''go''] Map.empty [] [] ''eact'' False None
              = Inr (Some [(PStr ''park'', PStr ''park''), (PStr ''go'', PStr ''go'')],
                     vars', [], [])
           \<and> vars' (PStr ''park'') = Some Boolean \<and> vars' (PStr ''go'') = Some Boolean
           \<and> vars' (PStr ''eact'') = None"
proof -
  have ne: "[PStr ''park'', PStr ''go''] \<noteq> []" by simp
  from create_actions_domains [OF ne, of Map.empty "[]" "[]" "''eact''" False]
  show ?thesis by auto
qed

lemma create_actions_int_example:
  "create_actions [PInt 0, PInt 1] Map.empty [] [] ''act'' False (Some ''mutex'')
     = Inr (Some [(PInt 0, PInt 0), (PInt 1, PInt 1)], [PStr ''act'' \<mapsto> IntRange 0 2], [], [])"
  "create_actions [PInt 0, PInt 1] Map.empty [] [] ''act'' False (Some ''xor'')
     = Inr (Some [(PInt 0, PInt 0), (PInt 1, PInt 1)], [PStr ''act'' \<mapsto> IntRange 0 1], [], [])"
proof -
  have i: "[PInt 0, PInt 1] \<noteq> []" "\<forall>a \<in> set [PInt 0, PInt 1]. is_int a"
    by (simp_all add: is_int_def)
  from create_actions_domains [OF i(1), of Map.empty "[]" "[]" "''act''" False] i(2)
  show "create_actions [PInt 0, PInt 1] Map.empty [] [] ''act'' False (Some ''mutex'')
     = Inr (Some [(PInt 0, PInt 0), (PInt 1, PInt 1)], [PStr ''act'' \<mapsto> IntRange 0 2], [], [])"
    and "create_actions [PInt 0, PInt 1] Map.empty [] [] ''act'' False (Some ''xor'')
     = Inr (Some [(PInt 0, PInt 0), (PInt 1, PInt 1)], [PStr ''act'' \<mapsto> IntRange 0 1], [], [])"
    by simp_all
qed

text \<open>
  Claim C4 at three string-valued actions, the integer encoding, mutual exclusion
  (\<^verbatim>\<open>'mutex'\<close>) and the action variable \<^verbatim>\<open>eact\<close>. The domain that \<^verbatim>\<open>actions2ints\<close>
  returns, and that \<^verbatim>\<open>create_actions\<close> declares for \<^verbatim>\<open>eact\<close>, is the three action
  values followed by the string \<^verbatim>\<open>eactnone\<close>, the name of the variable followed by
  \<^verbatim>\<open>none\<close>. The extra value that stands for no action is therefore not the string
  \<^verbatim>\<open>none\<close> that the docstring of \<^verbatim>\<open>create_actions\<close> names and that
  \<^verbatim>\<open>test_env_fts_int_actions\<close> expects. Under \<^verbatim>\<open>'xor'\<close> the domain is the three action
  values alone.
\<close>

theorem create_actions_sentinel:
  "actions2ints [PStr ''park'', PStr ''go'', PStr ''stop''] ''eact'' False
     = Inr ([(PStr ''park'', PStr ''eact = park''), (PStr ''go'', PStr ''eact = go''),
             (PStr ''stop'', PStr ''eact = stop'')],
            Enum [PStr ''park'', PStr ''go'', PStr ''stop'', PStr ''eactnone''])
   \<and> create_actions [PStr ''park'', PStr ''go'', PStr ''stop''] Map.empty [] [] ''eact'' False
         (Some ''mutex'')
       = Inr (Some [(PStr ''park'', PStr ''eact = park''), (PStr ''go'', PStr ''eact = go''),
                    (PStr ''stop'', PStr ''eact = stop'')],
              [PStr ''eact'' \<mapsto> Enum [PStr ''park'', PStr ''go'', PStr ''stop'',
                                           PStr ''eactnone'']], [], [])
   \<and> create_actions [PStr ''park'', PStr ''go'', PStr ''stop''] Map.empty [] [] ''eact'' False
         (Some ''xor'')
       = Inr (Some [(PStr ''park'', PStr ''eact = park''), (PStr ''go'', PStr ''eact = go''),
                    (PStr ''stop'', PStr ''eact = stop'')],
              [PStr ''eact'' \<mapsto> Enum [PStr ''park'', PStr ''go'', PStr ''stop'']], [], [])"
proof -
  have s: "[PStr ''park'', PStr ''go'', PStr ''stop''] \<noteq> []"
    "\<forall>a \<in> set [PStr ''park'', PStr ''go'', PStr ''stop'']. \<not> is_int a"
    by (simp_all add: is_int_def)
  have a: "actions2ints [PStr ''park'', PStr ''go'', PStr ''stop''] ''eact'' False
     = Inr ([(PStr ''park'', PStr ''eact = park''), (PStr ''go'', PStr ''eact = go''),
             (PStr ''stop'', PStr ''eact = stop'')],
            Enum [PStr ''park'', PStr ''go'', PStr ''stop'', PStr ''eactnone''])"
    using actions2ints_str [OF s, of "''eact''" False] by simp
  from a create_actions_domains [OF s(1), of Map.empty "[]" "[]" "''eact''" False] s(2)
  show ?thesis by simp
qed

section \<open>A single Boolean action\<close>

lemma update_boolean_single: "update_boolean vars [a] = vars(a \<mapsto> Boolean)"
  by (rule ext) (simp add: update_boolean_apply)

text \<open>
  Claim C10. For an action set holding exactly one action \<open>a\<close> that is encoded with
  Boolean variables (\<^verbatim>\<open>bool_actions\<close> is true, or \<^verbatim>\<open>actions_must\<close> is \<^verbatim>\<open>None\<close>, which
  forces it), and for each of the values \<^verbatim>\<open>None\<close>, \<^verbatim>\<open>'mutex'\<close> and \<^verbatim>\<open>'xor'\<close> of
  \<^verbatim>\<open>actions_must\<close>: \<^verbatim>\<open>create_actions\<close> declares \<open>a\<close> as a \<^verbatim>\<open>'boolean'\<close> variable,
  returns the identity map on it, and leaves the init and safety lists unchanged. In
  particular \<^verbatim>\<open>'xor'\<close> does not assert the action, whereas \<^verbatim>\<open>exactly_one\<close> of the
  one-element list is the non-empty list holding \<^verbatim>\<open>(a)\<close>.
\<close>

theorem create_actions_single_boolean:
  assumes "bool_actions \<or> actions_must = None"
    and "actions_must \<in> {None, Some ''mutex'', Some ''xor''}"
  shows "create_actions [a] vars trns init actionvar bool_actions actions_must
           = Inr (Some [(a, a)], vars(a \<mapsto> Boolean), trns, init)
         \<and> exactly_one [a] = [pstr a]"
proof -
  have m: "mutex (dict_values (dict_comp (\<lambda>x. x) [a])) = []"
    by (simp add: dict_values_def dict_comp_def mutex_def Let_def)
  have d: "dict_comp (\<lambda>x. x) [a] = [(a, a)]"
    by (simp add: dict_comp_def)
  have c: "create_actions [a] vars trns init actionvar bool_actions actions_must
           = Inr (Some [(a, a)], vars(a \<mapsto> Boolean), trns, init)"
    using assms m
    by (auto simp: create_actions_def must_options_def bindE_def Let_def d
        update_boolean_single)
  have e: "exactly_one [a] = [pstr a]"
    by (simp add: exactly_one_def)
  from c e show ?thesis by blast
qed

theorem create_actions_single_boolean_witness:
  "(True \<or> Some ''xor'' = None)
   \<and> Some ''xor'' \<in> {None, Some ''mutex'', Some ''xor''}
   \<and> create_actions [PStr ''go''] Map.empty [] [] ''act'' True (Some ''xor'')
       = Inr (Some [(PStr ''go'', PStr ''go'')], [PStr ''go'' \<mapsto> Boolean], [], [])
   \<and> exactly_one [PStr ''go''] = [''(go)'']"
proof -
  have h1: "True \<or> Some ''xor'' = (None :: string option)" by simp
  have h2: "Some ''xor'' \<in> {None, Some ''mutex'', Some ''xor''}" by simp
  from create_actions_single_boolean [OF h1 h2, of "PStr ''go''" Map.empty "[]" "[]" "''act''"]
  show ?thesis by (simp add: pstr_def)
qed

lemma create_actions_empty:
  "create_actions [] vars trns init actionvar bool_actions actions_must
     = Inr (None, vars, trns, init)"
  by (simp add: create_actions_def)

section \<open>Loops and lookups\<close>

lemma bindE_Inr_iff: "bindE m f = Inr y \<longleftrightarrow> (\<exists>x. m = Inr x \<and> f x = Inr y)"
  by (cases m) (simp_all add: bindE_def)

lemma getitem_Inr_iff: "getitem d k = Inr v \<longleftrightarrow> map_of d k = Some v"
  by (simp add: getitem_def split: option.splits)

lemma mapE_Inr_total:
  assumes "\<forall>x \<in> set xs. \<exists>y. f x = Inr y"
  shows "\<exists>ys. mapE f xs = Inr ys \<and> length ys = length xs"
  using assms by (induction xs) (auto simp: bindE_def)

lemma mapE_getitem_set:
  "mapE (getitem d) xs = Inr ys \<Longrightarrow> set ys = {v. \<exists>x \<in> set xs. map_of d x = Some v}"
proof (induction xs arbitrary: ys)
  case Nil
  then show ?case by simp
next
  case (Cons x xs)
  from Cons.prems obtain y ys' where
    y: "getitem d x = Inr y" and ys': "mapE (getitem d) xs = Inr ys'" and e: "ys = y # ys'"
    by (auto simp: bindE_Inr_iff)
  from Cons.IH [OF ys'] y e show ?case
    by (auto simp: getitem_Inr_iff)
qed


lemma for_each_no_warning:
  assumes "\<And>x c w. body x = Inr (c, w) \<Longrightarrow> w = []"
  shows "snd (for_each body xs) = []"
proof (induction xs)
  case Nil
  then show ?case by simp
next
  case (Cons a xs)
  then show ?case
    using assms by (auto split: sum.splits prod.splits)
qed

lemma for_each_warnings:
  assumes "for_each body xs = (Inr cls, ws)"
  shows "ws = concat (map (\<lambda>x. case body x of Inr (c, w) \<Rightarrow> w | Inl e \<Rightarrow> []) xs)"
  using assms
proof (induction xs arbitrary: cls ws)
  case Nil
  then show ?case by simp
next
  case (Cons a xs)
  from Cons.prems obtain c w cs ws' where
    a: "body a = Inr (c, w)" and r: "for_each body xs = (Inr cs, ws')"
    and e: "ws = w @ ws'"
    by (auto split: sum.splits prod.splits)
  from Cons.IH [OF r] a e show ?case by simp
qed

section \<open>Initial states\<close>

lemma init_label_clause_total:
  assumes "map_of state_ids s = Some v"
  shows "\<exists>c. init_label_clause states state_ids aps s = Inr c"
  using assms by (simp add: init_label_clause_def getitem_def bindE_def Let_def)

lemma getitem_total: "map_of d k \<noteq> None \<Longrightarrow> \<exists>v. getitem d k = Inr v"
  by (auto simp: getitem_def)

lemma mapE_getitem_all:
  "map (map_of d) xs = map Some ids \<Longrightarrow> mapE (getitem d) xs = Inr ids"
proof (induction xs arbitrary: ids)
  case Nil
  then show ?case by simp
next
  case (Cons x xs)
  then obtain i is' where i: "ids = i # is'" "map_of d x = Some i"
    "map (map_of d) xs = map Some is'"
    by (cases ids) auto
  from Cons.IH [OF i(3)] i(1,2) show ?case
    by (simp add: getitem_def bindE_def)
qed

lemma disj_str_renders: "disj_str xs = render (OrL (map (\<lambda>x. Paren (Atom x)) xs))"
  by (simp add: disj_str_def o_def)

lemma holds_disjunction:
  "holds v (OrL (map (\<lambda>x. Paren (Atom x)) xs)) = (\<exists>x \<in> set xs. v (str x))"
  by (simp add: list_ex_iff)

text \<open>
  Claim C1. With \<^verbatim>\<open>ignore_initial\<close> false: for a transition system without initial
  states \<^verbatim>\<open>sys_init_from_ts\<close> returns the list \<^verbatim>\<open>['False']\<close> and issues one warning.
  For a transition system with a non-empty set of initial states whose identifiers are
  \<open>ids\<close> (in iteration order), it issues no warning and returns a list whose last formula
  is the text \<^verbatim>\<open>(id1) || (id2) || ...\<close>: each identifier between parentheses, the
  disjuncts separated by \<^verbatim>\<open>||\<close>. That text is the printed form of the disjunction over
  the identifiers, which holds under a valuation exactly when the valuation makes one
  member of the set of identifiers true, whatever their order.
\<close>

theorem sys_init_from_ts_initial:
  "(st_initial states = [] \<longrightarrow>
      sys_init_from_ts states state_ids aps False = (Inr [''False''], [no_initial_msg]))
   \<and> (st_initial states \<noteq> [] \<and> map (map_of state_ids) (st_initial states) = map Some ids \<longrightarrow>
        (\<exists>init.
           sys_init_from_ts states state_ids aps False
             = (Inr (init @ [join '' || '' (map (\<lambda>x. ''('' @ str x @ '')'') ids)]), []))
        \<and> join '' || '' (map (\<lambda>x. ''('' @ str x @ '')'') ids)
            = render (OrL (map (\<lambda>x. Paren (Atom x)) ids))
        \<and> (\<forall>v. holds v (OrL (map (\<lambda>x. Paren (Atom x)) ids)) = (\<exists>x \<in> set ids. v (str x))))"
proof -
  have empty: "st_initial states = [] \<longrightarrow>
      sys_init_from_ts states state_ids aps False = (Inr [''False''], [no_initial_msg])"
    by (simp add: sys_init_from_ts_def)
  have text_tree: "join '' || '' (map (\<lambda>x. ''('' @ str x @ '')'') ids)
            = render (OrL (map (\<lambda>x. Paren (Atom x)) ids))"
    by (simp add: o_def)
  have sem: "\<forall>v. holds v (OrL (map (\<lambda>x. Paren (Atom x)) ids)) = (\<exists>x \<in> set ids. v (str x))"
    by (simp add: list_ex_iff)
  have nonempty: "\<exists>init.
           sys_init_from_ts states state_ids aps False
             = (Inr (init @ [join '' || '' (map (\<lambda>x. ''('' @ str x @ '')'') ids)]), [])"
    if ne: "st_initial states \<noteq> []"
      and cover: "map (map_of state_ids) (st_initial states) = map Some ids"
  proof -
    have def: "\<forall>s \<in> set (st_initial states). \<exists>v. map_of state_ids s = Some v"
    proof
      fix s
      assume "s \<in> set (st_initial states)"
      then have "map_of state_ids s \<in> set (map (map_of state_ids) (st_initial states))"
        by simp
      with cover show "\<exists>v. map_of state_ids s = Some v" by auto
    qed
    then have "\<forall>s \<in> set (st_initial states).
                 \<exists>c. init_label_clause states state_ids aps s = Inr c"
      using init_label_clause_total by fastforce
    from mapE_Inr_total [OF this] obtain cls where
      cls: "mapE (init_label_clause states state_ids aps) (st_initial states) = Inr cls"
      by blast
    from mapE_getitem_all [OF cover] have
      ids: "mapE (getitem state_ids) (st_initial states) = Inr ids" .
    have "sys_init_from_ts states state_ids aps False
            = (Inr (concat cls @ [join '' || '' (map (\<lambda>x. ''('' @ str x @ '')'') ids)]), [])"
      using ne cls ids by (simp add: sys_init_from_ts_def bindE_def disj_str_def)
    then show ?thesis by blast
  qed
  from empty nonempty text_tree sem show ?thesis by blast
qed

lemma sys_init_from_ts_example:
  "sys_init_from_ts
     \<lparr>st_all = [PStr ''s0'', PStr ''s1'', PStr ''s2''],
      st_initial = [PStr ''s0'', PStr ''s2''],
      st_label_of = (\<lambda>s. \<lparr>l_ap = (if s = PStr ''s0'' then Some [PStr ''home''] else None),
                             l_env_actions = None, l_sys_actions = None, l_actions = None\<rparr>)\<rparr>
     [(PStr ''s0'', PStr ''loc = 0''), (PStr ''s1'', PStr ''loc = 1''),
      (PStr ''s2'', PStr ''loc = 2'')] [PStr ''home'', PStr ''lot''] False
   = (Inr [''!((loc = 0)) || (home && !lot)'', ''!((loc = 2)) || (!home && !lot)'',
           ''(loc = 0) || (loc = 2)''], [])"
  by (simp add: sys_init_from_ts_def init_label_clause_def sprint_aps_def conj_neg_def
      conj_intersection_def conj_neg_diff_def getitem_def bindE_def disj_str_def pstr_def)

theorem sys_init_from_ts_initial_witness:
  "sys_init_from_ts
     \<lparr>st_all = [PStr ''s0''], st_initial = [],
      st_label_of = (\<lambda>s. \<lparr>l_ap = None, l_env_actions = None, l_sys_actions = None,
                             l_actions = None\<rparr>)\<rparr>
     [(PStr ''s0'', PStr ''s0'')] [] False
   = (Inr [''False''], [no_initial_msg])
   \<and> sys_init_from_ts
       \<lparr>st_all = [PStr ''s0'', PStr ''s1'', PStr ''s2''],
        st_initial = [PStr ''s0'', PStr ''s2''],
        st_label_of = (\<lambda>s. \<lparr>l_ap = (if s = PStr ''s0'' then Some [PStr ''home''] else None),
                               l_env_actions = None, l_sys_actions = None, l_actions = None\<rparr>)\<rparr>
       [(PStr ''s0'', PStr ''loc = 0''), (PStr ''s1'', PStr ''loc = 1''),
        (PStr ''s2'', PStr ''loc = 2'')] [PStr ''home'', PStr ''lot''] False
     = (Inr [''!((loc = 0)) || (home && !lot)'', ''!((loc = 2)) || (!home && !lot)'',
             ''(loc = 0) || (loc = 2)''], [])
   \<and> (\<exists>init.
         sys_init_from_ts
           \<lparr>st_all = [PStr ''s0'', PStr ''s1'', PStr ''s2''],
            st_initial = [PStr ''s0'', PStr ''s2''],
            st_label_of = (\<lambda>s. \<lparr>l_ap = (if s = PStr ''s0'' then Some [PStr ''home''] else None),
                                   l_env_actions = None, l_sys_actions = None,
                                   l_actions = None\<rparr>)\<rparr>
           [(PStr ''s0'', PStr ''loc = 0''), (PStr ''s1'', PStr ''loc = 1''),
            (PStr ''s2'', PStr ''loc = 2'')] [PStr ''home'', PStr ''lot''] False
         = (Inr (init @ [''(loc = 0) || (loc = 2)'']), []))
   \<and> holds (\<lambda>s. s = ''loc = 2'')
         (OrL (map (\<lambda>x. Paren (Atom x)) [PStr ''loc = 0'', PStr ''loc = 2'']))"
proof -
  let ?l0 = "\<lambda>s::pyval. \<lparr>l_ap = None, l_env_actions = None, l_sys_actions = None,
                           l_actions = None\<rparr>"
  let ?l1 = "\<lambda>s. \<lparr>l_ap = (if s = PStr ''s0'' then Some [PStr ''home''] else None),
                    l_env_actions = None, l_sys_actions = None, l_actions = None\<rparr>"
  let ?t0 = "\<lparr>st_all = [PStr ''s0''], st_initial = [], st_label_of = ?l0\<rparr>"
  let ?t1 = "\<lparr>st_all = [PStr ''s0'', PStr ''s1'', PStr ''s2''],
              st_initial = [PStr ''s0'', PStr ''s2''], st_label_of = ?l1\<rparr>"
  let ?d = "[(PStr ''s0'', PStr ''loc = 0''), (PStr ''s1'', PStr ''loc = 1''),
             (PStr ''s2'', PStr ''loc = 2'')]"
  let ?ids = "[PStr ''loc = 0'', PStr ''loc = 2'']"
  have h1: "st_initial ?t0 = []" by simp
  have h2: "st_initial ?t1 \<noteq> [] \<and> map (map_of ?d) (st_initial ?t1) = map Some ?ids"
    by simp
  note a = sys_init_from_ts_initial
    [where states = ?t0 and state_ids = "[(PStr ''s0'', PStr ''s0'')]" and aps = "[]"
       and ids = "[]"]
  note b = sys_init_from_ts_initial
    [where states = ?t1 and state_ids = ?d and aps = "[PStr ''home'', PStr ''lot'']"
       and ids = ?ids]
  from a h1 have one: "sys_init_from_ts ?t0 [(PStr ''s0'', PStr ''s0'')] [] False
                       = (Inr [''False''], [no_initial_msg])"
    by blast
  from b h2 have two: "\<exists>init. sys_init_from_ts ?t1 ?d [PStr ''home'', PStr ''lot''] False
         = (Inr (init @ [join '' || '' (map (\<lambda>x. ''('' @ str x @ '')'') ?ids)]), [])"
    by blast
  have tx: "join '' || '' (map (\<lambda>x. ''('' @ str x @ '')'') ?ids) = ''(loc = 0) || (loc = 2)''"
    by simp
  from b h2 have "\<forall>v. holds v (OrL (map (\<lambda>x. Paren (Atom x)) ?ids)) = (\<exists>x \<in> set ?ids. v (str x))"
    by blast
  then have three: "holds (\<lambda>s. s = ''loc = 2'') (OrL (map (\<lambda>x. Paren (Atom x)) ?ids))"
    by simp
  from one two [unfolded tx] three sys_init_from_ts_example show ?thesis by blast
qed

section \<open>Dead states of the system\<close>

lemma sys_trans_body_no_warning:
  "sys_trans_body state_ids trns aids sids eids s = Inr (c, w) \<Longrightarrow> w = []"
  by (auto simp: sys_trans_body_def bindE_def Let_def split: sum.splits if_splits)






section \<open>Free transitions of the environment\<close>
















section \<open>Rendering of binary nodes\<close>

lemma except_KeyError_Inr_iff: "except_KeyError e r = Inr y \<longleftrightarrow> r = Inr y"
  by (auto simp: except_KeyError_def split: sum.splits error.splits)

lemma Binary_flatten_shape:
  assumes "Binary_flatten g u op = Inr out"
  shows "\<exists>l r. op_l g u = Inr l \<and> op_r g u = Inr r
           \<and> out = ''( '' @ key_text l @ '' '' @ op @ '' '' @ key_text r @ '' )''"
  using assms by (auto simp: Binary_flatten_def bindE_Inr_iff)

lemma Binary_flatten_token:
  assumes "Binary_flatten g u op = Inr out"
  shows "\<exists>l r. op_l g u = Inr l \<and> op_r g u = Inr r
           \<and> (\<exists>tok. out = ''( '' @ key_text l @ '' '' @ tok @ '' '' @ key_text r @ '' )'')"
  using Binary_flatten_shape [OF assms] by blast

lemma table_Binary_flatten_token:
  assumes "bindE (getitem m op) (Binary_flatten g u) = Inr out"
  shows "\<exists>l r. op_l g u = Inr l \<and> op_r g u = Inr r
           \<and> (\<exists>tok. out = ''( '' @ key_text l @ '' '' @ tok @ '' '' @ key_text r @ '' )'')"
proof -
  from assms obtain t where "Binary_flatten g u t = Inr out"
    by (auto simp: bindE_Inr_iff)
  then show ?thesis by (rule Binary_flatten_token)
qed

lemma to_gr1c_binary_flatten:
  assumes "g_node g u = Some n" and "is_binary n" and "to_gr1c g u primed = Inr out"
  shows "\<exists>op. Binary_flatten g u op = Inr out"
  using assms
  by (cases n) (auto simp: to_gr1c_def is_binary_def except_KeyError_Inr_iff bindE_Inr_iff)

lemma to_jtlv_binary_flatten:
  assumes "g_node g u = Some n" and "is_binary n" and "to_jtlv g u = Inr out"
  shows "\<exists>op. Binary_flatten g u op = Inr out"
  using assms
  by (cases n) (auto simp: to_jtlv_def is_binary_def except_KeyError_Inr_iff bindE_Inr_iff)

lemma to_smv_binary_flatten:
  assumes "g_node g u = Some n" and "is_binary n" and "to_smv g u = Inr out"
  shows "\<exists>op. Binary_flatten g u op = Inr out"
  using assms
  by (cases n) (auto simp: to_smv_def is_binary_def bindE_Inr_iff)

lemma to_promela_binary_flatten:
  assumes "g_node g u = Some n" and "is_binary n" and "to_promela g u = Inr out"
  shows "\<exists>op. Binary_flatten g u op = Inr out"
  using assms
  by (cases n) (auto simp: to_promela_def is_binary_def except_KeyError_Inr_iff bindE_Inr_iff)

lemma to_python_binary_flatten:
  assumes "g_node g u = Some n" and "is_binary n" and "to_python g u = Inr out"
    and "n \<noteq> Imp" and "n \<noteq> BiImp"
  shows "\<exists>op. Binary_flatten g u op = Inr out"
  using assms
  by (cases n) (auto simp: to_python_def is_binary_def)

lemma to_python_Imp:
  assumes "g_node g u = Some Imp" and "to_python g u = Inr out"
  shows "\<exists>l r. op_l g u = Inr l \<and> op_r g u = Inr r
           \<and> out = ''( (not ('' @ key_text l @ '')) or '' @ key_text r @ '')''"
  using assms by (auto simp: to_python_def bindE_Inr_iff)

lemma to_python_BiImp:
  assumes "g_node g u = Some BiImp" and "to_python g u = Inr out"
  shows "\<exists>l r. op_l g u = Inr l \<and> op_r g u = Inr r
           \<and> out = ''( '' @ key_text l @ '' and '' @ key_text r @ '' ) or not ( '' @
                    key_text l @ '' or '' @ key_text r @ '' )''"
  using assms by (auto simp: to_python_def bindE_Inr_iff)

lemma to_dialect_binary_flatten:
  assumes "g_node g u = Some n" and "is_binary n" and "to_dialect d g u primed = Inr out"
    and "\<not> (d = Python \<and> (n = Imp \<or> n = BiImp))"
  shows "\<exists>op. Binary_flatten g u op = Inr out"
proof (cases d)
  case Gr1c
  with assms show ?thesis by (auto simp: to_dialect_def intro: to_gr1c_binary_flatten)
next
  case Jtlv
  with assms show ?thesis by (auto simp: to_dialect_def intro: to_jtlv_binary_flatten)
next
  case Smv
  with assms show ?thesis by (auto simp: to_dialect_def intro: to_smv_binary_flatten)
next
  case Promela
  with assms show ?thesis by (auto simp: to_dialect_def intro: to_promela_binary_flatten)
next
  case Python
  with assms show ?thesis by (auto simp: to_dialect_def intro: to_python_binary_flatten)
qed

text \<open>
  The shape of every rendering of a binary node that returns text: \<^verbatim>\<open>( L op R )\<close>, one
  pair of parentheses around the dialect's operator token and the two texts \<open>L\<close> and
  \<open>R\<close> that \<^verbatim>\<open>flatten\<close> obtains for the operands, which are the texts of the operands'
  graph keys. Implication and bi-implication in the evaluable dialect give
  \<^verbatim>\<open>( (not (L)) or R)\<close> and \<^verbatim>\<open>( L and R ) or not ( L or R )\<close>.
\<close>

lemma binary_render_shape:
  assumes "g_node g u = Some n" and "is_binary n" and "to_dialect d g u primed = Inr out"
  shows "\<exists>l r. op_l g u = Inr l \<and> op_r g u = Inr r
           \<and> (if d = Python \<and> n = Imp
               then out = ''( (not ('' @ key_text l @ '')) or '' @ key_text r @ '')''
               else if d = Python \<and> n = BiImp
               then out = ''( '' @ key_text l @ '' and '' @ key_text r @ '' ) or not ( '' @
                            key_text l @ '' or '' @ key_text r @ '' )''
               else \<exists>tok. out = ''( '' @ key_text l @ '' '' @ tok @ '' '' @ key_text r
                                 @ '' )'')"
proof (cases "d = Python \<and> (n = Imp \<or> n = BiImp)")
  case True
  then have py: "to_python g u = Inr out"
    using assms(3) by (simp add: to_dialect_def)
  show ?thesis
  proof (cases "n = Imp")
    case True
    from to_python_Imp [OF assms(1) [unfolded True] py] True \<open>d = Python \<and> (n = Imp \<or> n = BiImp)\<close>
    show ?thesis by auto
  next
    case False
    with \<open>d = Python \<and> (n = Imp \<or> n = BiImp)\<close> have b: "n = BiImp" by simp
    from to_python_BiImp [OF assms(1) [unfolded b] py] b \<open>d = Python \<and> (n = Imp \<or> n = BiImp)\<close>
    show ?thesis by auto
  qed
next
  case False
  from to_dialect_binary_flatten [OF assms False] obtain op where
    "Binary_flatten g u op = Inr out"
    by blast
  from Binary_flatten_token [OF this] False show ?thesis by auto
qed

lemma str_int_small: "str_int 1 = ''1''" "str_int 2 = ''2''" "str_int 3 = ''3''"
  by code_simp+

text \<open>
  Claim C9 at the conjunction \<open>a & b\<close> of the graph \<open>and_ab\<close>. Rendered on their own,
  the operands give \<^verbatim>\<open>a\<close> and \<^verbatim>\<open>b\<close> (\<^verbatim>\<open>(a)\<close> and \<^verbatim>\<open>(b)\<close> in the JTLV dialect).
  The conjunction renders as \<^verbatim>\<open>( 1 & 2 )\<close>, \<^verbatim>\<open>( 1 && 2 )\<close> or \<^verbatim>\<open>( 1 and 2 )\<close>: what
  stands between the parentheses is the graph keys 1 and 2 that \<^verbatim>\<open>op_l\<close> and \<^verbatim>\<open>op_r\<close>
  return, so the rendered text of the operands is not enclosed in parentheses in the
  output; it does not occur in it.
\<close>

theorem binary_operands_not_rendered:
  "to_gr1c and_ab 1 False = Inr ''a'' \<and> to_gr1c and_ab 2 False = Inr ''b''
   \<and> to_jtlv and_ab 1 = Inr ''(a)'' \<and> to_jtlv and_ab 2 = Inr ''(b)''
   \<and> to_smv and_ab 1 = Inr ''a'' \<and> to_smv and_ab 2 = Inr ''b''
   \<and> to_promela and_ab 1 = Inr ''a'' \<and> to_promela and_ab 2 = Inr ''b''
   \<and> to_python and_ab 1 = Inr ''a'' \<and> to_python and_ab 2 = Inr ''b''
   \<and> op_l and_ab 3 = Inr (Some 1) \<and> op_r and_ab 3 = Inr (Some 2)
   \<and> to_gr1c and_ab 3 False = Inr ''( 1 & 2 )''
   \<and> to_jtlv and_ab 3 = Inr ''( 1 && 2 )''
   \<and> to_smv and_ab 3 = Inr ''( 1 & 2 )''
   \<and> to_promela and_ab 3 = Inr ''( 1 && 2 )''
   \<and> to_python and_ab 3 = Inr ''( 1 and 2 )''"
proof -
  have n: "g_node and_ab 1 = Some (Var ''a'')" "g_node and_ab 2 = Some (Var ''b'')"
    "g_node and_ab 3 = Some And"
    by (simp_all add: and_ab_def)
  have l: "op_l and_ab 3 = Inr (Some 1)" by (simp add: op_l_def and_ab_def)
  have r: "op_r and_ab 3 = Inr (Some 2)" by (simp add: op_r_def and_ab_def)
  have leaves: "to_gr1c and_ab 1 False = Inr ''a''" "to_gr1c and_ab 2 False = Inr ''b''"
    "to_jtlv and_ab 1 = Inr ''(a)''" "to_jtlv and_ab 2 = Inr ''(b)''"
    "to_smv and_ab 1 = Inr ''a''" "to_smv and_ab 2 = Inr ''b''"
    "to_promela and_ab 1 = Inr ''a''" "to_promela and_ab 2 = Inr ''b''"
    "to_python and_ab 1 = Inr ''a''" "to_python and_ab 2 = Inr ''b''"
    by (simp_all add: to_gr1c_def to_jtlv_def to_smv_def to_promela_def to_python_def n)
  have node: "to_gr1c and_ab 3 False = Inr ''( 1 & 2 )''"
    "to_jtlv and_ab 3 = Inr ''( 1 && 2 )''"
    "to_smv and_ab 3 = Inr ''( 1 & 2 )''"
    "to_promela and_ab 3 = Inr ''( 1 && 2 )''"
    "to_python and_ab 3 = Inr ''( 1 and 2 )''"
    by (simp_all add: to_gr1c_def to_jtlv_def to_smv_def to_promela_def to_python_def n
        Binary_flatten_def l r bindE_def key_text_def str_int_small)
  from leaves l r node show ?thesis by (intro conjI)
qed

section \<open>Release nodes\<close>

lemma release_constructed:
  "new_BiTempOp ''R'' = Inr (BiTempOp ''R'')" "new_BiTempOp ''V'' = Inr (BiTempOp ''R'')"
  by (simp_all add: new_BiTempOp_def TEMPORAL_OP_MAP_def getitem_def bindE_def)

lemma release_root_raises:
  assumes "g_node g u = Some (BiTempOp ''R'')"
  shows "to_gr1c g u primed
           = Inl (LTLException ''Operator R not supported in gr1c syntax map'')"
    and "to_jtlv g u = Inl (LTLException ''Operator R not supported in JTLV syntax map'')"
  using assms
  by (simp_all add: to_gr1c_def to_jtlv_def GR1C_MAP_def JTLV_MAP_def getitem_def bindE_def
      except_KeyError_def not_supported_def)

text \<open>
  Claim C6 at a formula that contains a release node below its root. The graph
  \<open>not_release\<close> holds the negation of \<open>p R q\<close>. Rendering the release node itself
  raises \<^verbatim>\<open>LTLException\<close> in both dialects, but rendering the negation returns the text
  \<^verbatim>\<open>( ! 3 )\<close> in both: \<^verbatim>\<open>Unary.flatten\<close> is handed the key 3 of the release node, not
  the node, so the release node is never rendered and no error is raised.
\<close>

theorem nested_release_renders:
  "g_node not_release 3 = Some (BiTempOp ''R'')
   \<and> operand not_release 4 = Inr 3
   \<and> to_gr1c not_release 3 False
       = Inl (LTLException ''Operator R not supported in gr1c syntax map'')
   \<and> to_jtlv not_release 3
       = Inl (LTLException ''Operator R not supported in JTLV syntax map'')
   \<and> to_gr1c not_release 4 False = Inr ''( ! 3 )''
   \<and> to_jtlv not_release 4 = Inr ''( ! 3 )''"
proof -
  have n: "g_node not_release 3 = Some (BiTempOp ''R'')"
    by (simp add: not_release_def)
  have o: "operand not_release 4 = Inr 3"
    by (simp add: not_release_def operand_def)
  have r: "g_node not_release 4 = Some Not_node"
    by (simp add: not_release_def)
  have g: "to_gr1c not_release 4 False = Inr ''( ! 3 )''"
    by (simp add: to_gr1c_def r Unary_flatten_def o bindE_def key_text_def str_int_small)
  have j: "to_jtlv not_release 4 = Inr ''( ! 3 )''"
    by (simp add: to_jtlv_def r Unary_flatten_def o bindE_def key_text_def str_int_small)
  from n o release_root_raises [OF n] g j show ?thesis by blast
qed

section \<open>The encoders return on covered transition systems\<close>

lemma conj_action_total:
  assumes "tag_known ids (label_get l ty)"
  shows "\<exists>t. conj_action l ty nxt ids = Inr t"
  using assms
  by (auto simp: tag_known_def conj_action_def getitem_def bindE_def
      split: option.splits)

lemma for_each_total:
  assumes "\<forall>x \<in> set xs. \<exists>c w. body x = Inr (c, w)"
  shows "\<exists>cls ws. for_each body xs = (Inr cls, ws)"
  using assms
proof (induction xs)
  case Nil
  then show ?case by simp
next
  case (Cons a xs)
  then obtain c w cls ws where "body a = Inr (c, w)" "for_each body xs = (Inr cls, ws)"
    by force
  then show ?case by simp
qed

lemma edge_of_trans_find: "e \<in> set (trans_find trns from_states) \<Longrightarrow> e \<in> set trns"
  by (auto simp: trans_find_def)

lemma sys_postcond_total:
  assumes "ts_covered states state_ids trns aids eids sids" and "e \<in> set trns"
  shows "\<exists>t. sys_postcond state_ids aids sids eids e = Inr t"
proof -
  obtain f t l where e: "e = (f, t, l)" by (cases e)
  from assms e have t: "map_of state_ids t \<noteq> None"
    and k: "tag_known eids (label_get l Env_actions)" "tag_known sids (label_get l Sys_actions)"
      "tag_known aids (label_get l Actions)"
    by (auto simp: ts_covered_def list_all_iff)
  from t obtain tid where "getitem state_ids t = Inr tid"
    by (auto simp: getitem_def)
  moreover from conj_action_total [OF k(1)] obtain ea where
    "conj_action l Env_actions False eids = Inr ea" by blast
  moreover from conj_action_total [OF k(2)] obtain sa where
    "conj_action l Sys_actions False sids = Inr sa" by blast
  moreover from conj_action_total [OF k(3)] obtain a where
    "conj_action l Actions False aids = Inr a" by blast
  ultimately show ?thesis
    by (simp add: sys_postcond_def e bindE_def)
qed

lemma env_postcond_total:
  assumes "ts_covered states state_ids trns aids eids sids" and "e \<in> set trns"
  shows "\<exists>t. env_postcond state_ids aids eids sids e = Inr t"
proof -
  obtain f t l where e: "e = (f, t, l)" by (cases e)
  from assms e have t: "map_of state_ids t \<noteq> None"
    and k: "tag_known eids (label_get l Env_actions)" "tag_known sids (label_get l Sys_actions)"
      "tag_known aids (label_get l Actions)"
    by (auto simp: ts_covered_def list_all_iff)
  from t obtain tid where "getitem state_ids t = Inr tid"
    by (auto simp: getitem_def)
  moreover from conj_action_total [OF k(1)] obtain ea where
    "conj_action l Env_actions True eids = Inr ea" by blast
  moreover from conj_action_total [OF k(3)] obtain a where
    "conj_action l Actions True aids = Inr a" by blast
  moreover from conj_action_total [OF k(2)] obtain sa where
    "conj_action l Sys_actions False sids = Inr sa" by blast
  ultimately show ?thesis
    by (simp add: env_postcond_def e bindE_def)
qed

lemma sys_trans_from_ts_returns:
  assumes "ts_covered states state_ids trns aids eids sids"
  shows "\<exists>cls. sys_trans_from_ts states state_ids trns aids sids eids = (Inr cls, [])"
proof -
  have "\<exists>c w. sys_trans_body state_ids trns aids sids eids s = Inr (c, w)"
    if s: "s \<in> set (st_all states)" for s
  proof -
    from assms s obtain sid where sid: "getitem state_ids s = Inr sid"
      by (auto simp: ts_covered_def list_all_iff getitem_def)
    have "\<forall>e \<in> set (trans_find trns [s]). \<exists>t. sys_postcond state_ids aids sids eids e = Inr t"
      using sys_postcond_total [OF assms] edge_of_trans_find by blast
    from mapE_Inr_total [OF this] obtain ps where
      "mapE (sys_postcond state_ids aids sids eids) (trans_find trns [s]) = Inr ps"
      by blast
    with sid show ?thesis
      by (simp add: sys_trans_body_def bindE_def Let_def)
  qed
  then have "\<forall>s \<in> set (st_all states).
               \<exists>c w. sys_trans_body state_ids trns aids sids eids s = Inr (c, w)"
    by blast
  from for_each_total [OF this] obtain cls ws where
    r: "for_each (sys_trans_body state_ids trns aids sids eids) (st_all states) = (Inr cls, ws)"
    by blast
  have "snd (for_each (sys_trans_body state_ids trns aids sids eids) (st_all states)) = []"
    by (rule for_each_no_warning) (rule sys_trans_body_no_warning)
  with r show ?thesis by (simp add: sys_trans_from_ts_def)
qed

lemma env_trans_from_env_ts_returns:
  assumes "ts_covered states state_ids trns aids eids sids"
  shows "\<exists>cls ws. env_trans_from_env_ts states state_ids trns aids eids sids = (Inr cls, ws)"
proof -
  have "\<exists>c w. env_trans_body state_ids trns aids eids sids s = Inr (c, w)"
    if s: "s \<in> set (st_all states)" for s
  proof -
    from assms s obtain sid where sid: "getitem state_ids s = Inr sid"
      by (auto simp: ts_covered_def list_all_iff getitem_def)
    have "\<forall>e \<in> set (trans_find trns [s]). \<exists>t. env_postcond state_ids aids eids sids e = Inr t"
      using env_postcond_total [OF assms] edge_of_trans_find by blast
    from mapE_Inr_total [OF this] obtain ps where
      "mapE (env_postcond state_ids aids eids sids) (trans_find trns [s]) = Inr ps"
      by blast
    with sid show ?thesis
      by (simp add: env_trans_body_def bindE_def Let_def)
  qed
  then have "\<forall>s \<in> set (st_all states).
               \<exists>c w. env_trans_body state_ids trns aids eids sids s = Inr (c, w)"
    by blast
  from for_each_total [OF this] show ?thesis
    by (simp add: env_trans_from_env_ts_def)
qed

section \<open>Unary nodes never render their operand\<close>

lemma negation_prints_key:
  assumes "g_node g u = Some Not_node" and "g_succ g u = (v, d) # es"
  shows "to_gr1c g u primed = Inr (''( ! '' @ str_int v @ '' )'')"
    and "to_jtlv g u = Inr (''( ! '' @ str_int v @ '' )'')"
  using assms
  by (simp_all add: to_gr1c_def to_jtlv_def Unary_flatten_def operand_def bindE_def
      key_text_def)

end
